theory Spec2Isabelle
  imports Main "HOL-Library.Word" "HOL-Library.Signed_Division"
begin

section \<open>Go primitives the client relies on\<close>

text \<open>
  Go strings are byte sequences, as \<^typ>\<open>string\<close> is.  \<^verbatim>\<open>time.Duration\<close> is an
  \<^verbatim>\<open>int64\<close> count of nanoseconds; \<^verbatim>\<open>int\<close> and \<^verbatim>\<open>uint\<close> are taken as 64 bits
  wide.  Go's integer division truncates towards zero, which is \<open>sdiv\<close> on \<^typ>\<open>int\<close>.
\<close>

type_synonym Duration = "64 word"

definition Second :: Duration where
  "Second = 1000000000"

definition div64 :: "64 word \<Rightarrow> 64 word \<Rightarrow> 64 word" where
  "div64 a b = word_of_int (sint a sdiv sint b)"

text \<open>\<^verbatim>\<open>strings.TrimSuffix\<close>: the suffix is removed once, when present.\<close>

definition HasSuffix :: "string \<Rightarrow> string \<Rightarrow> bool" where
  "HasSuffix s suffix \<longleftrightarrow>
     length suffix \<le> length s \<and> drop (length s - length suffix) s = suffix"

definition TrimSuffix :: "string \<Rightarrow> string \<Rightarrow> string" where
  "TrimSuffix s suffix =
     (if HasSuffix s suffix then take (length s - length suffix) s else s)"

text \<open>
  \<^verbatim>\<open>strings.SplitN(s, sep, n)\<close> for a separator of one byte: at most \<open>n\<close> pieces, the
  last one being the unsplit remainder; no piece at all for \<open>n = 0\<close>.
\<close>

fun SplitN :: "string \<Rightarrow> char \<Rightarrow> nat \<Rightarrow> string list" where
  "SplitN s sep 0 = []"
| "SplitN s sep (Suc 0) = [s]"
| "SplitN s sep (Suc (Suc n)) =
     (if sep \<in> set s
      then takeWhile (\<lambda>c. c \<noteq> sep) s #
           SplitN (tl (dropWhile (\<lambda>c. c \<noteq> sep) s)) sep (Suc n)
      else [s])"

text \<open>\<^verbatim>\<open>strconv.Itoa\<close>: the decimal digits of a signed integer.\<close>

fun udec :: "nat \<Rightarrow> string" where
  "udec n =
     (if n < 10 then [''0123456789'' ! n]
      else udec (n div 10) @ [''0123456789'' ! (n mod 10)])"

declare udec.simps [simp del]

definition Itoa :: "int \<Rightarrow> string" where
  "Itoa i = (if i < 0 then CHR ''-'' # udec (nat (- i)) else udec (nat i))"

text \<open>
  \<^verbatim>\<open>libdns.RelativeName\<close> comes from the libdns module, outside this repository.  It
  drops a trailing dot of the name, then the zone (without its trailing dot), then a dot
  left at the end; a name that was the zone itself becomes \<open>@\<close>.
\<close>

definition RelativeName :: "string \<Rightarrow> string \<Rightarrow> string" where
  "RelativeName fqdn zone =
     (let rel = TrimSuffix (TrimSuffix (TrimSuffix fqdn ''.'') (TrimSuffix zone ''.'')) ''.''
      in if rel = '''' \<and> fqdn \<noteq> '''' \<and> zone \<noteq> '''' then ''@'' else rel)"

section \<open>Data model\<close>

text \<open>The provider's wire record: every field is a string.\<close>

record pkbnRecord =
  pkbn_content :: string
  pkbn_id :: string
  pkbn_name :: string
  pkbn_notes :: string
  pkbn_prio :: string
  pkbn_ttl :: string
  pkbn_type :: string

text \<open>
  The flat \<^verbatim>\<open>libdns.Record\<close> of the first two design iterations.  Its priority is an
  \<^verbatim>\<open>int\<close> in the first and a \<^verbatim>\<open>uint\<close> in the second; both are the same 64 bits.
\<close>

record Record =
  ID :: string
  Type :: string
  Name :: string
  Value :: string
  TTL :: Duration
  Priority :: "64 word"

record Provider =
  APIKey :: string
  APISecretKey :: string

record ApiCredentials =
  Apikey :: string
  Secretapikey :: string

text \<open>Request bodies: credentials alone, a record payload, or a value update.\<close>

record pkbnRecordPayload =
  pl_credentials :: ApiCredentials
  pl_content :: string
  pl_name :: string
  pl_ttl :: string
  pl_type :: string

record RecordUpdateRequest =
  up_credentials :: ApiCredentials
  up_content :: string
  up_ttl :: string

datatype body =
    CredentialsBody ApiCredentials
  | PayloadBody pkbnRecordPayload
  | UpdateBody RecordUpdateRequest

text \<open>
  A decoded response object.  Each call site reads the fields of its own response
  type: status and message everywhere, the caller's address after a ping, the records
  after a listing or a lookup.
\<close>

record Response =
  status :: string
  message :: string
  yourIp :: string
  records :: "pkbnRecord list"

section \<open>Errors and number parsing\<close>

text \<open>The errors the operations return.\<close>

datatype error =
    SyntaxError string
  | RangeError string
  | RoundTripError string
  | InvalidResponseStatus string
  | TooManyMatches Record
  | UnsupportedRecordType string
  | OtherError string

text \<open>
  \<^verbatim>\<open>strconv.Atoi\<close>: an optional sign and decimal digits.  A syntax error gives 0, a
  value outside \<^verbatim>\<open>int64\<close> gives the nearest bound, each together with the error.
\<close>

definition isDigit :: "char \<Rightarrow> bool" where
  "isDigit c \<longleftrightarrow> (48::int) \<le> of_char c \<and> (of_char c :: int) \<le> 57"

definition decval :: "string \<Rightarrow> int" where
  "decval ds = foldl (\<lambda>n c. n * 10 + (of_char c - 48)) 0 ds"

definition Atoi :: "string \<Rightarrow> int \<times> error option" where
  "Atoi s =
     (let neg = (s \<noteq> [] \<and> hd s = CHR ''-'');
          ds = (if s \<noteq> [] \<and> (hd s = CHR ''-'' \<or> hd s = CHR ''+'') then tl s else s)
      in if ds = [] \<or> \<not> list_all isDigit ds then (0, Some (SyntaxError s))
         else if \<not> neg \<and> 2 ^ 63 \<le> decval ds then (2 ^ 63 - 1, Some (RangeError s))
         else if neg \<and> 2 ^ 63 < decval ds then (- (2 ^ 63), Some (RangeError s))
         else (if neg then - decval ds else decval ds, None))"

section \<open>Transport\<close>

text \<open>
  One call of \<^verbatim>\<open>MakeApiRequest\<close> (\<^verbatim>\<open>makeHttpRequest\<close> in the first iteration) is one
  round trip: the URL is parsed, the body is posted, a status other than 200 and a body
  that does not decode are errors.  The remote side is a parameter \<open>api\<close>: from its state
  and the call it gives the error text or the decoded response, and its next state.
  The world also keeps the calls made so far, in order.  \<^verbatim>\<open>json.Marshal\<close> of the
  request structs, which hold only strings, does not fail; the branches that return its
  error are left out.
\<close>

type_synonym request = "string \<times> body"

type_synonym 'st api = "'st \<Rightarrow> request \<Rightarrow> (string + Response) \<times> 'st"

type_synonym 'st world = "'st \<times> request list"

definition MakeApiRequest ::
  "'st api \<Rightarrow> string \<Rightarrow> body \<Rightarrow> 'st world \<Rightarrow> (error + Response) \<times> 'st world" where
  "MakeApiRequest api endpoint b w =
     (case api (fst w) (endpoint, b) of
        (Inl msg, st) \<Rightarrow> (Inl (RoundTripError msg), (st, snd w @ [(endpoint, b)]))
      | (Inr response, st) \<Rightarrow> (Inr response, (st, snd w @ [(endpoint, b)])))"

text \<open>
  \<^verbatim>\<open>time.ParseDuration\<close> belongs to Go's standard library and parses fractions
  through floating point; it is a parameter \<open>pd\<close> of every function that reads a wire
  TTL.  It returns the duration (0 on failure) and the error.
\<close>

type_synonym durationParser = "string \<Rightarrow> Duration \<times> error option"

section \<open>Second iteration: records addressed by identifier\<close>

subsection \<open>client.go, models.go\<close>

definition LibdnsZoneToPorkbunDomain :: "string \<Rightarrow> string" where
  "LibdnsZoneToPorkbunDomain zone = TrimSuffix zone ''.''"

definition getCredentials :: "Provider \<Rightarrow> ApiCredentials" where
  "getCredentials p = \<lparr>Apikey = APIKey p, Secretapikey = APISecretKey p\<rparr>"

text \<open>Both parse errors are dropped: a malformed TTL or priority reads as 0.\<close>

definition toLibdnsRecord :: "durationParser \<Rightarrow> pkbnRecord \<Rightarrow> string \<Rightarrow> Record" where
  "toLibdnsRecord pd record zone =
     (let ttl = fst (pd (pkbn_ttl record @ ''s''));
          priority = fst (Atoi (pkbn_prio record))
      in \<lparr>ID = pkbn_id record,
          Type = pkbn_type record,
          Name = RelativeName (pkbn_name record) (LibdnsZoneToPorkbunDomain zone),
          Value = pkbn_content record,
          TTL = ttl,
          Priority = word_of_int priority\<rparr>)"

text \<open>
  On a status other than \<open>SUCCESS\<close> the function returns \<^verbatim>\<open>"", err\<close>, where \<^verbatim>\<open>err\<close> is
  the error of the round trip, which is nil at that point.
\<close>

definition CheckCredentials ::
  "'st api \<Rightarrow> Provider \<Rightarrow> 'st world \<Rightarrow> (string \<times> error option) \<times> 'st world" where
  "CheckCredentials api p w =
     (case MakeApiRequest api ''/ping'' (CredentialsBody (getCredentials p)) w of
        (Inl err, w1) \<Rightarrow> (('''', Some err), w1)
      | (Inr response, w1) \<Rightarrow>
          if status response \<noteq> ''SUCCESS'' then (('''', None), w1)
          else ((yourIp response, None), w1))"

definition getMatchingRecord ::
  "'st api \<Rightarrow> durationParser \<Rightarrow> Provider \<Rightarrow> Record \<Rightarrow> string \<Rightarrow> 'st world
     \<Rightarrow> (Record list \<times> error option) \<times> 'st world" where
  "getMatchingRecord api pd p r zone w =
     (let trimmedZone = LibdnsZoneToPorkbunDomain zone;
          relativeName = RelativeName (Name r) zone;
          trimmedName = (if relativeName = ''@'' then '''' else relativeName);
          endpoint = ''/dns/retrieveByNameType/'' @ trimmedZone @ ''/'' @ Type r @ ''/'' @ trimmedName
      in case MakeApiRequest api endpoint (CredentialsBody (getCredentials p)) w of
           (Inl err, w1) \<Rightarrow> (([], Some err), w1)
         | (Inr response, w1) \<Rightarrow>
             ((map (\<lambda>rec. toLibdnsRecord pd rec zone) (records response), None), w1))"

text \<open>
  The head of the loop body shared by \<^verbatim>\<open>AppendRecords\<close> and \<^verbatim>\<open>updateRecords\<close>: the TTL
  floor on the loop's copy of the record, then the payload.
\<close>

definition enforceFloor :: "Record \<Rightarrow> Record" where
  "enforceFloor record =
     (if div64 (TTL record) Second <s 600 then record\<lparr>TTL := 600 * Second\<rparr> else record)"

definition recordPayload :: "Provider \<Rightarrow> string \<Rightarrow> Record \<Rightarrow> pkbnRecordPayload" where
  "recordPayload p zone record =
     (let ttlInSeconds = div64 (TTL record) Second;
          relativeName = RelativeName (Name record) zone;
          trimmedName = (if relativeName = ''@'' then '''' else relativeName)
      in \<lparr>pl_credentials = getCredentials p,
          pl_content = Value record,
          pl_name = trimmedName,
          pl_ttl = Itoa (sint ttlInSeconds),
          pl_type = Type record\<rparr>)"

fun updateRecords_loop ::
  "'st api \<Rightarrow> Provider \<Rightarrow> string \<Rightarrow> Record list \<Rightarrow> Record list \<Rightarrow> 'st world
     \<Rightarrow> (Record list \<times> error option) \<times> 'st world" where
  "updateRecords_loop api p zone [] createdRecords w = ((createdRecords, None), w)"
| "updateRecords_loop api p zone (r # rest) createdRecords w =
     (let record = enforceFloor r;
          endpoint = ''/dns/edit/'' @ LibdnsZoneToPorkbunDomain zone @ ''/'' @ ID record
      in case MakeApiRequest api endpoint (PayloadBody (recordPayload p zone record)) w of
           (Inl err, w1) \<Rightarrow> (([], Some err), w1)
         | (Inr response, w1) \<Rightarrow>
             if status response \<noteq> ''SUCCESS'' then (([], None), w1)
             else updateRecords_loop api p zone rest (createdRecords @ [record]) w1)"

definition updateRecords ::
  "'st api \<Rightarrow> Provider \<Rightarrow> string \<Rightarrow> Record list \<Rightarrow> 'st world
     \<Rightarrow> (Record list \<times> error option) \<times> 'st world" where
  "updateRecords api p zone recs w = updateRecords_loop api p zone recs [] w"

subsection \<open>provider.go\<close>

definition GetRecords_v2 ::
  "'st api \<Rightarrow> durationParser \<Rightarrow> Provider \<Rightarrow> string \<Rightarrow> 'st world
     \<Rightarrow> (Record list \<times> error option) \<times> 'st world" where
  "GetRecords_v2 api pd p zone w =
     (case MakeApiRequest api (''/dns/retrieve/'' @ LibdnsZoneToPorkbunDomain zone)
             (CredentialsBody (getCredentials p)) w of
        (Inl err, w1) \<Rightarrow> (([], Some err), w1)
      | (Inr response, w1) \<Rightarrow>
          if status response \<noteq> ''SUCCESS''
          then (([], Some (InvalidResponseStatus (status response))), w1)
          else ((map (\<lambda>rec. toLibdnsRecord pd rec zone) (records response), None), w1))"

text \<open>
  After a successful create the identifier is looked up by name and type; it is taken
  only when the lookup succeeds with exactly one match.
\<close>

fun AppendRecords_v2_loop ::
  "'st api \<Rightarrow> durationParser \<Rightarrow> Provider \<Rightarrow> string \<Rightarrow> Record list \<Rightarrow> Record list
     \<Rightarrow> 'st world \<Rightarrow> (Record list \<times> error option) \<times> 'st world" where
  "AppendRecords_v2_loop api pd p zone [] createdRecords w = ((createdRecords, None), w)"
| "AppendRecords_v2_loop api pd p zone (r # rest) createdRecords w =
     (let record = enforceFloor r;
          endpoint = ''/dns/create/'' @ LibdnsZoneToPorkbunDomain zone
      in case MakeApiRequest api endpoint (PayloadBody (recordPayload p zone record)) w of
           (Inl err, w1) \<Rightarrow> ((createdRecords, Some err), w1)
         | (Inr response, w1) \<Rightarrow>
             if status response \<noteq> ''SUCCESS''
             then ((createdRecords, Some (InvalidResponseStatus (status response))), w1)
             else (case getMatchingRecord api pd p record zone w1 of
                     ((created, err), w2) \<Rightarrow>
                       AppendRecords_v2_loop api pd p zone rest
                         (createdRecords @
                            [if err = None \<and> length created = 1
                             then record\<lparr>ID := ID (created ! 0)\<rparr> else record])
                         w2))"

definition AppendRecords_v2 ::
  "'st api \<Rightarrow> durationParser \<Rightarrow> Provider \<Rightarrow> string \<Rightarrow> Record list \<Rightarrow> 'st world
     \<Rightarrow> (Record list \<times> error option) \<times> 'st world" where
  "AppendRecords_v2 api pd p zone recs w = AppendRecords_v2_loop api pd p zone recs [] w"

text \<open>
  The first loop of \<^verbatim>\<open>SetRecords\<close> sorts the input into updates and creates; an error
  there ends the call before anything is written.
\<close>

fun SetRecords_v2_route ::
  "'st api \<Rightarrow> durationParser \<Rightarrow> Provider \<Rightarrow> string \<Rightarrow> Record list \<Rightarrow> Record list
     \<Rightarrow> Record list \<Rightarrow> 'st world \<Rightarrow> (error + Record list \<times> Record list) \<times> 'st world" where
  "SetRecords_v2_route api pd p zone [] updates creates w = (Inr (updates, creates), w)"
| "SetRecords_v2_route api pd p zone (r # rest) updates creates w =
     (if ID r = '''' then
        (case getMatchingRecord api pd p r zone w of
           ((matches, Some err), w1) \<Rightarrow> (Inl err, w1)
         | ((matches, None), w1) \<Rightarrow>
             if length matches = 0
             then SetRecords_v2_route api pd p zone rest updates (creates @ [r]) w1
             else if length matches > 1 then (Inl (TooManyMatches r), w1)
             else SetRecords_v2_route api pd p zone rest
                    (updates @ [r\<lparr>ID := ID (matches ! 0)\<rparr>]) creates w1)
      else SetRecords_v2_route api pd p zone rest (updates @ [r]) creates w)"

text \<open>The rest of \<^verbatim>\<open>SetRecords\<close>: the creates, then the updates, then both results.\<close>

definition SetRecords_v2_write ::
  "'st api \<Rightarrow> durationParser \<Rightarrow> Provider \<Rightarrow> string \<Rightarrow> Record list \<Rightarrow> Record list
     \<Rightarrow> 'st world \<Rightarrow> (Record list \<times> error option) \<times> 'st world" where
  "SetRecords_v2_write api pd p zone updates creates w1 =
     (case AppendRecords_v2 api pd p zone creates w1 of
        ((created, Some err), w2) \<Rightarrow> (([], Some err), w2)
      | ((created, None), w2) \<Rightarrow>
          (case updateRecords api p zone updates w2 of
             ((updated, Some err), w3) \<Rightarrow> (([], Some err), w3)
           | ((updated, None), w3) \<Rightarrow> ((created @ updated, None), w3)))"

definition SetRecords_v2 ::
  "'st api \<Rightarrow> durationParser \<Rightarrow> Provider \<Rightarrow> string \<Rightarrow> Record list \<Rightarrow> 'st world
     \<Rightarrow> (Record list \<times> error option) \<times> 'st world" where
  "SetRecords_v2 api pd p zone recs w =
     (case SetRecords_v2_route api pd p zone recs [] [] w of
        (Inl err, w1) \<Rightarrow> (([], Some err), w1)
      | (Inr (updates, creates), w1) \<Rightarrow> SetRecords_v2_write api pd p zone updates creates w1)"

text \<open>
  \<^verbatim>\<open>DeleteRecords\<close>: the inner loop issues one delete per queued record and does not
  read the response; the outer loop queues the record itself when it has an identifier
  and every match of the lookup otherwise.
\<close>

fun deleteQueued ::
  "'st api \<Rightarrow> Provider \<Rightarrow> string \<Rightarrow> Record list \<Rightarrow> Record list \<Rightarrow> 'st world
     \<Rightarrow> (Record list \<times> error option) \<times> 'st world" where
  "deleteQueued api p zone [] deletedRecords w = ((deletedRecords, None), w)"
| "deleteQueued api p zone (recordToDelete # rest) deletedRecords w =
     (case MakeApiRequest api
             (''/dns/delete/'' @ LibdnsZoneToPorkbunDomain zone @ ''/'' @ ID recordToDelete)
             (CredentialsBody (getCredentials p)) w of
        (Inl err, w1) \<Rightarrow> ((deletedRecords, Some err), w1)
      | (Inr response, w1) \<Rightarrow>
          deleteQueued api p zone rest (deletedRecords @ [recordToDelete]) w1)"

fun DeleteRecords_v2_loop ::
  "'st api \<Rightarrow> durationParser \<Rightarrow> Provider \<Rightarrow> string \<Rightarrow> Record list \<Rightarrow> Record list
     \<Rightarrow> 'st world \<Rightarrow> (Record list \<times> error option) \<times> 'st world" where
  "DeleteRecords_v2_loop api pd p zone [] deletedRecords w = ((deletedRecords, None), w)"
| "DeleteRecords_v2_loop api pd p zone (record # rest) deletedRecords w =
     (if ID record = '''' then
        (case getMatchingRecord api pd p record zone w of
           ((matches, Some err), w1) \<Rightarrow> ((deletedRecords, Some err), w1)
         | ((matches, None), w1) \<Rightarrow>
             (case deleteQueued api p zone matches deletedRecords w1 of
                ((deleted, Some err), w2) \<Rightarrow> ((deleted, Some err), w2)
              | ((deleted, None), w2) \<Rightarrow>
                  DeleteRecords_v2_loop api pd p zone rest deleted w2))
      else
        (case deleteQueued api p zone [record] deletedRecords w of
           ((deleted, Some err), w2) \<Rightarrow> ((deleted, Some err), w2)
         | ((deleted, None), w2) \<Rightarrow> DeleteRecords_v2_loop api pd p zone rest deleted w2))"

definition DeleteRecords_v2 ::
  "'st api \<Rightarrow> durationParser \<Rightarrow> Provider \<Rightarrow> string \<Rightarrow> Record list \<Rightarrow> 'st world
     \<Rightarrow> (Record list \<times> error option) \<times> 'st world" where
  "DeleteRecords_v2 api pd p zone recs w = DeleteRecords_v2_loop api pd p zone recs [] w"

section \<open>First iteration: records addressed by name and type\<close>

text \<open>
  The string set of the first iteration: a Go map from string to bool, of which only
  the keys matter.
\<close>

type_synonym StringSet = "string \<rightharpoonup> bool"

definition NewSet :: StringSet where
  "NewSet = Map.empty"

definition Add :: "StringSet \<Rightarrow> string \<Rightarrow> StringSet" where
  "Add s v = s(v \<mapsto> True)"

definition Remove :: "StringSet \<Rightarrow> string \<Rightarrow> StringSet" where
  "Remove s v = s(v := None)"

definition Contains :: "StringSet \<Rightarrow> string \<Rightarrow> bool" where
  "Contains s v \<longleftrightarrow> s v \<noteq> None"

definition getRecordCoordinates :: "Record \<Rightarrow> string" where
  "getRecordCoordinates record = Name record @ ''-'' @ Type record"

definition trimZone :: "string \<Rightarrow> string" where
  "trimZone zone = TrimSuffix zone ''.''"

text \<open>A TTL that does not parse fails the listing; a priority that does not is 0.\<close>

fun GetRecords_v1_loop ::
  "durationParser \<Rightarrow> pkbnRecord list \<Rightarrow> Record list \<Rightarrow> Record list \<times> error option" where
  "GetRecords_v1_loop pd [] recs = (recs, None)"
| "GetRecords_v1_loop pd (record # rest) recs =
     (case pd (pkbn_ttl record @ ''s'') of
        (ttl, Some err) \<Rightarrow> ([], Some err)
      | (ttl, None) \<Rightarrow>
          GetRecords_v1_loop pd rest
            (recs @ [\<lparr>ID = pkbn_id record,
                      Type = pkbn_type record,
                      Name = pkbn_name record @ ''.'',
                      Value = pkbn_content record,
                      TTL = ttl,
                      Priority = word_of_int (fst (Atoi (pkbn_prio record)))\<rparr>]))"

definition GetRecords_v1 ::
  "'st api \<Rightarrow> durationParser \<Rightarrow> Provider \<Rightarrow> string \<Rightarrow> 'st world
     \<Rightarrow> (Record list \<times> error option) \<times> 'st world" where
  "GetRecords_v1 api pd p zone w =
     (case MakeApiRequest api (''dns/retrieve/'' @ trimZone zone)
             (CredentialsBody (getCredentials p)) w of
        (Inl err, w1) \<Rightarrow> (([], Some err), w1)
      | (Inr response, w1) \<Rightarrow>
          if status response \<noteq> ''SUCCESS''
          then (([], Some (InvalidResponseStatus (status response))), w1)
          else (GetRecords_v1_loop pd (records response) [], w1))"

text \<open>
  The create request of this iteration has the fields of \<^typ>\<open>pkbnRecordPayload\<close>; the
  relative name is sent as it is.  Every failure returns nil instead of the records
  created so far.
\<close>

definition createRequest_v1 :: "Provider \<Rightarrow> string \<Rightarrow> Record \<Rightarrow> pkbnRecordPayload" where
  "createRequest_v1 p zone record =
     \<lparr>pl_credentials = getCredentials p,
      pl_content = Value record,
      pl_name = RelativeName (Name record) zone,
      pl_ttl = Itoa (sint (div64 (TTL record) Second)),
      pl_type = Type record\<rparr>"

fun AppendRecords_v1_loop ::
  "'st api \<Rightarrow> Provider \<Rightarrow> string \<Rightarrow> Record list \<Rightarrow> Record list \<Rightarrow> 'st world
     \<Rightarrow> (Record list \<times> error option) \<times> 'st world" where
  "AppendRecords_v1_loop api p zone [] createdRecords w = ((createdRecords, None), w)"
| "AppendRecords_v1_loop api p zone (r # rest) createdRecords w =
     (let record = enforceFloor r
      in case MakeApiRequest api (''dns/create/'' @ trimZone zone)
                (PayloadBody (createRequest_v1 p zone record)) w of
           (Inl err, w1) \<Rightarrow> (([], Some err), w1)
         | (Inr response, w1) \<Rightarrow>
             if status response \<noteq> ''SUCCESS''
             then (([], Some (InvalidResponseStatus (status response))), w1)
             else AppendRecords_v1_loop api p zone rest (createdRecords @ [record]) w1)"

definition AppendRecords_v1 ::
  "'st api \<Rightarrow> Provider \<Rightarrow> string \<Rightarrow> Record list \<Rightarrow> 'st world
     \<Rightarrow> (Record list \<times> error option) \<times> 'st world" where
  "AppendRecords_v1 api p zone recs w = AppendRecords_v1_loop api p zone recs [] w"

text \<open>
  \<^verbatim>\<open>UpdateRecords\<close> edits by name and type.  On a status other than \<open>SUCCESS\<close> it
  returns \<^verbatim>\<open>nil, err\<close> with the nil error of the round trip.
\<close>

fun UpdateRecords_v1_loop ::
  "'st api \<Rightarrow> Provider \<Rightarrow> string \<Rightarrow> Record list \<Rightarrow> Record list \<Rightarrow> 'st world
     \<Rightarrow> (Record list \<times> error option) \<times> 'st world" where
  "UpdateRecords_v1_loop api p zone [] createdRecords w = ((createdRecords, None), w)"
| "UpdateRecords_v1_loop api p zone (r # rest) createdRecords w =
     (let record = enforceFloor r;
          ttlInSeconds = div64 (TTL record) Second;
          trimmedName = RelativeName (Name record) zone;
          reqBody = \<lparr>up_credentials = getCredentials p,
                     up_content = Value record,
                     up_ttl = Itoa (sint ttlInSeconds)\<rparr>;
          endpoint = ''dns/editByNameType/'' @ trimZone zone @ ''/'' @ Type record @ ''/'' @ trimmedName
      in case MakeApiRequest api endpoint (UpdateBody reqBody) w of
           (Inl err, w1) \<Rightarrow> (([], Some err), w1)
         | (Inr response, w1) \<Rightarrow>
             if status response \<noteq> ''SUCCESS'' then (([], None), w1)
             else UpdateRecords_v1_loop api p zone rest (createdRecords @ [record]) w1)"

definition UpdateRecords_v1 ::
  "'st api \<Rightarrow> Provider \<Rightarrow> string \<Rightarrow> Record list \<Rightarrow> 'st world
     \<Rightarrow> (Record list \<times> error option) \<times> 'st world" where
  "UpdateRecords_v1 api p zone recs w = UpdateRecords_v1_loop api p zone recs [] w"

text \<open>
  \<^verbatim>\<open>SetRecords\<close> lists the zone once, collects the coordinates of what it found, and
  sorts the input by membership.
\<close>

fun existingCoordinates_v1 :: "Record list \<Rightarrow> StringSet \<Rightarrow> StringSet" where
  "existingCoordinates_v1 [] s = s"
| "existingCoordinates_v1 (r # rest) s =
     existingCoordinates_v1 rest (Add s (getRecordCoordinates r))"

fun SetRecords_v1_route ::
  "StringSet \<Rightarrow> Record list \<Rightarrow> Record list \<Rightarrow> Record list \<Rightarrow> Record list \<times> Record list" where
  "SetRecords_v1_route existingCoordinates [] updates creates = (updates, creates)"
| "SetRecords_v1_route existingCoordinates (r # rest) updates creates =
     (if Contains existingCoordinates (getRecordCoordinates r)
      then SetRecords_v1_route existingCoordinates rest (updates @ [r]) creates
      else SetRecords_v1_route existingCoordinates rest updates (creates @ [r]))"

text \<open>
  The rest of \<^verbatim>\<open>SetRecords\<close>: the creates, then the updates; both results are dropped
  and the input is returned.
\<close>

definition SetRecords_v1_write ::
  "'st api \<Rightarrow> Provider \<Rightarrow> string \<Rightarrow> Record list \<Rightarrow> Record list \<Rightarrow> Record list
     \<Rightarrow> 'st world \<Rightarrow> (Record list \<times> error option) \<times> 'st world" where
  "SetRecords_v1_write api p zone recs updates creates w1 =
     (case AppendRecords_v1 api p zone creates w1 of
        ((created, Some err), w2) \<Rightarrow> (([], Some err), w2)
      | ((created, None), w2) \<Rightarrow>
          (case UpdateRecords_v1 api p zone updates w2 of
             ((updated, Some err), w3) \<Rightarrow> (([], Some err), w3)
           | ((updated, None), w3) \<Rightarrow> ((recs, None), w3)))"

definition SetRecords_v1 ::
  "'st api \<Rightarrow> durationParser \<Rightarrow> Provider \<Rightarrow> string \<Rightarrow> Record list \<Rightarrow> 'st world
     \<Rightarrow> (Record list \<times> error option) \<times> 'st world" where
  "SetRecords_v1 api pd p zone recs w =
     (case GetRecords_v1 api pd p zone w of
        ((existingRecords, Some err), w1) \<Rightarrow> (([], Some err), w1)
      | ((existingRecords, None), w1) \<Rightarrow>
          (case SetRecords_v1_route (existingCoordinates_v1 existingRecords NewSet) recs [] [] of
             (updates, creates) \<Rightarrow> SetRecords_v1_write api p zone recs updates creates w1))"

fun DeleteRecords_v1_loop ::
  "'st api \<Rightarrow> Provider \<Rightarrow> string \<Rightarrow> Record list \<Rightarrow> Record list \<Rightarrow> 'st world
     \<Rightarrow> (Record list \<times> error option) \<times> 'st world" where
  "DeleteRecords_v1_loop api p zone [] deletedRecords w = ((deletedRecords, None), w)"
| "DeleteRecords_v1_loop api p zone (record # rest) deletedRecords w =
     (case MakeApiRequest api
             (''dns/deleteByNameType/'' @ trimZone zone @ ''/'' @ Type record @ ''/''
                @ RelativeName (Name record) zone)
             (CredentialsBody (getCredentials p)) w of
        (Inl err, w1) \<Rightarrow> (([], Some err), w1)
      | (Inr response, w1) \<Rightarrow>
          DeleteRecords_v1_loop api p zone rest (deletedRecords @ [record]) w1)"

definition DeleteRecords_v1 ::
  "'st api \<Rightarrow> Provider \<Rightarrow> string \<Rightarrow> Record list \<Rightarrow> 'st world
     \<Rightarrow> (Record list \<times> error option) \<times> 'st world" where
  "DeleteRecords_v1 api p zone recs w = DeleteRecords_v1_loop api p zone recs [] w"

section \<open>Typed records: the translation of models.go\<close>

text \<open>
  The record variants of libdns 1.x.  An address is kept abstract; \<open>None\<close> is the zero
  \<^verbatim>\<open>netip.Addr\<close>.  \<^verbatim>\<open>netip.ParseAddr\<close> is a parameter \<open>pa\<close>.  The wire record
  of this version of models.go has no identifier field; the translation reads none.
\<close>

datatype 'ip libdnsRecord =
    RR (rr_Name: string) (rr_TTL: Duration) (rr_Type: string) (rr_Data: string)
  | Address (address_Name: string) (address_TTL: Duration) (address_IP: "'ip option")
  | CAA (caa_Name: string) (caa_TTL: Duration) (caa_Flags: "8 word") (caa_Tag: string)
      (caa_Value: string)
  | CNAME (cname_Name: string) (cname_TTL: Duration) (cname_Target: string)
  | SRV (srv_Service: string) (srv_Transport: string) (srv_Name: string) (srv_TTL: Duration)
      (srv_Priority: "16 word") (srv_Weight: "16 word") (srv_Port: "16 word")
      (srv_Target: string)
  | TXT (txt_Name: string) (txt_TTL: Duration) (txt_Text: string)

text \<open>A Go call returns or panics; indexing a slice out of range panics.\<close>

datatype 'a outcome = Returns 'a | Panics string

definition index :: "string list \<Rightarrow> nat \<Rightarrow> string outcome" where
  "index xs i = (if i < length xs then Returns (xs ! i) else Panics ''index out of range'')"

definition toLibdnsRecord_typed ::
  "durationParser \<Rightarrow> (string \<Rightarrow> error + 'ip) \<Rightarrow> pkbnRecord \<Rightarrow> string
     \<Rightarrow> ('ip libdnsRecord \<times> error option) outcome" where
  "toLibdnsRecord_typed pd pa record zone =
     (let name = RelativeName (pkbn_name record) zone
      in case pd (pkbn_ttl record @ ''s'') of
           (ttl, Some err) \<Rightarrow> Returns (RR '''' 0 '''' '''', Some err)
         | (ttl, None) \<Rightarrow>
             if pkbn_type record = ''A'' \<or> pkbn_type record = ''AAAA'' then
               (case pa (pkbn_content record) of
                  Inl err \<Rightarrow> Returns (Address '''' 0 None, Some err)
                | Inr ip \<Rightarrow> Returns (Address name ttl (Some ip), None))
             else if pkbn_type record = ''CAA'' then
               (let contentParts = SplitN (pkbn_content record) CHR '' '' 3
                in case index contentParts 0 of
                     Panics m \<Rightarrow> Panics m
                   | Returns part0 \<Rightarrow>
                       (case Atoi part0 of
                          (flags, Some err) \<Rightarrow> Returns (CAA '''' 0 0 '''' '''', Some err)
                        | (flags, None) \<Rightarrow>
                            (case index contentParts 1 of
                               Panics m \<Rightarrow> Panics m
                             | Returns tag \<Rightarrow>
                                 (case index contentParts 2 of
                                    Panics m \<Rightarrow> Panics m
                                  | Returns val \<Rightarrow>
                                      Returns (CAA name ttl (word_of_int flags) tag val, None)))))
             else if pkbn_type record = ''CNAME'' then
               Returns (CNAME name ttl (pkbn_content record), None)
             else if pkbn_type record = ''SRV'' then
               (case Atoi (pkbn_prio record) of
                  (priority, err) \<Rightarrow>
                    Returns (SRV '''' '''' name ttl (word_of_int priority) 0 0 '''', err))
             else if pkbn_type record = ''TXT'' then
               Returns (TXT name ttl (pkbn_content record), None)
             else Returns (RR '''' 0 '''' '''', Some (UnsupportedRecordType (pkbn_type record))))"

section \<open>Fixtures for running the operations\<close>

text \<open>
  A remote side that answers from a script, one entry per round trip, and refuses the
  connection once the script is used up; and one that gives the same answer to every
  call and keeps no state.
\<close>

definition replay :: "(string + Response) list api" where
  "replay st q = (case st of [] \<Rightarrow> (Inl ''connection refused'', []) | x # xs \<Rightarrow> (x, xs))"

definition always :: "Response \<Rightarrow> unit api" where
  "always response st q = (Inr response, st)"

definition success :: "pkbnRecord list \<Rightarrow> Response" where
  "success rs = \<lparr>status = ''SUCCESS'', message = '''', yourIp = '''', records = rs\<rparr>"

definition failure :: "string \<Rightarrow> Response" where
  "failure msg = \<lparr>status = ''ERROR'', message = msg, yourIp = '''', records = []\<rparr>"

text \<open>
  A duration parser for the fixtures.  It agrees with \<^verbatim>\<open>time.ParseDuration\<close> on decimal
  digits followed by \<open>s\<close>, the shape of a wire TTL with the unit appended; signs,
  fractions and other units, which \<^verbatim>\<open>time.ParseDuration\<close> also accepts, are errors here.
\<close>

definition parseSeconds :: durationParser where
  "parseSeconds s =
     (if s \<noteq> [] \<and> last s = CHR ''s'' \<and> butlast s \<noteq> [] \<and> list_all isDigit (butlast s)
         \<and> decval (butlast s) * 1000000000 < 2 ^ 63
      then (word_of_int (decval (butlast s) * 1000000000), None)
      else (0, Some (OtherError s)))"

text \<open>The zero values of the two record types, a provider, and the records of the examples.\<close>

definition rec0 :: Record where
  "rec0 = \<lparr>ID = '''', Type = '''', Name = '''', Value = '''', TTL = 0, Priority = 0\<rparr>"

definition wire0 :: pkbnRecord where
  "wire0 = \<lparr>pkbn_content = '''', pkbn_id = '''', pkbn_name = '''', pkbn_notes = '''',
            pkbn_prio = '''', pkbn_ttl = '''', pkbn_type = ''''\<rparr>"

definition prov :: Provider where
  "prov = \<lparr>APIKey = ''pk1_key'', APISecretKey = ''sk1_secret''\<rparr>"

definition txt60 :: Record where
  "txt60 = rec0\<lparr>Type := ''TXT'', Name := ''libdns_test'', Value := ''v'', TTL := 60 * Second\<rparr>"

definition txtWire :: "string \<Rightarrow> pkbnRecord" where
  "txtWire i = wire0\<lparr>pkbn_content := ''v'', pkbn_id := i, pkbn_name := ''libdns_test.example.com'',
                     pkbn_prio := ''0'', pkbn_ttl := ''600'', pkbn_type := ''TXT''\<rparr>"

definition www :: Record where
  "www = rec0\<lparr>Type := ''A'', Name := ''www'', Value := ''192.0.2.1'', TTL := 600 * Second\<rparr>"

definition wwwWire :: pkbnRecord where
  "wwwWire = wire0\<lparr>pkbn_content := ''192.0.2.1'', pkbn_id := ''42'', pkbn_name := ''www.example.com'',
                    pkbn_prio := ''0'', pkbn_ttl := ''600'', pkbn_type := ''A''\<rparr>"

definition wwwListed :: Record where
  "wwwListed = \<lparr>ID = ''42'', Type = ''A'', Name = ''www.example.com.'', Value = ''192.0.2.1'',
                 TTL = 600 * Second, Priority = 0\<rparr>"



definition srvWire :: pkbnRecord where
  "srvWire = wire0\<lparr>pkbn_content := ''1 993 imap.example.com'', pkbn_name := ''_imaps._tcp.example.com'',
                    pkbn_prio := ''10'', pkbn_ttl := ''300'', pkbn_type := ''SRV''\<rparr>"

definition caaWire :: "string \<Rightarrow> pkbnRecord" where
  "caaWire content = wire0\<lparr>pkbn_content := content, pkbn_name := ''example.com'',
                            pkbn_prio := ''0'', pkbn_ttl := ''600'', pkbn_type := ''CAA''\<rparr>"

section \<open>Vocabulary of the properties\<close>


text \<open>The TTL fields of the bodies sent, in the order of the calls.\<close>

fun bodyTTL :: "request \<Rightarrow> string list" where
  "bodyTTL (endpoint, PayloadBody pl) = [pl_ttl pl]"
| "bodyTTL (endpoint, UpdateBody u) = [up_ttl u]"
| "bodyTTL (endpoint, CredentialsBody c) = []"

definition sentTTLs :: "request list \<Rightarrow> string list" where
  "sentTTLs log = concat (map bodyTTL log)"


text \<open>
  The failure a create round trip amounts to, if any: the error of the round trip, or a
  status other than \<open>SUCCESS\<close>.
\<close>

definition createFailure :: "error + Response \<Rightarrow> error option" where
  "createFailure res =
     (case res of
        Inl err \<Rightarrow> Some err
      | Inr response \<Rightarrow>
          if status response \<noteq> ''SUCCESS''
          then Some (InvalidResponseStatus (status response)) else None)"

text \<open>A remote side on which no delete round trip fails.\<close>

definition deletesGoThrough :: "'st api \<Rightarrow> bool" where
  "deletesGoThrough api \<longleftrightarrow>
     (\<forall>st name b. \<exists>response st'. api st (''/dns/delete/'' @ name, b) = (Inr response, st'))"

definition deleteCall :: "Provider \<Rightarrow> string \<Rightarrow> Record \<Rightarrow> request" where
  "deleteCall p zone m =
     (''/dns/delete/'' @ LibdnsZoneToPorkbunDomain zone @ ''/'' @ ID m,
      CredentialsBody (getCredentials p))"

text \<open>A call of the lookup endpoint: it carries credentials and nothing to write.\<close>

definition isLookup :: "request \<Rightarrow> bool" where
  "isLookup q \<longleftrightarrow>
     take 24 (fst q) = ''/dns/retrieveByNameType/'' \<and> (\<exists>c. snd q = CredentialsBody c)"

text \<open>
  The first iteration's test: some listed record has the same coordinate string, built
  from the name and the type as they stand.
\<close>

definition listed :: "Record list \<Rightarrow> Record \<Rightarrow> bool" where
  "listed existing r \<longleftrightarrow>
     (\<exists>e \<in> set existing. getRecordCoordinates e = getRecordCoordinates r)"

text \<open>
  A remote side whose lookups change nothing; and what a lookup for a record returns
  from a given state of it.
\<close>

definition readOnlyLookups :: "'st api \<Rightarrow> bool" where
  "readOnlyLookups api \<longleftrightarrow>
     (\<forall>st name b. snd (api st (''/dns/retrieveByNameType/'' @ name, b)) = st)"

definition lookupAt ::
  "'st api \<Rightarrow> durationParser \<Rightarrow> Provider \<Rightarrow> string \<Rightarrow> 'st \<Rightarrow> Record
     \<Rightarrow> Record list \<times> error option" where
  "lookupAt api pd p zone st r = fst (getMatchingRecord api pd p r zone (st, []))"

definition resolved ::
  "'st api \<Rightarrow> durationParser \<Rightarrow> Provider \<Rightarrow> string \<Rightarrow> 'st \<Rightarrow> Record \<Rightarrow> Record" where
  "resolved api pd p zone st r =
     (if ID r = '''' then r\<lparr>ID := ID (fst (lookupAt api pd p zone st r) ! 0)\<rparr> else r)"


section \<open>The TTL floor\<close>

lemma sdiv_pos_divisor:
  fixes k :: int
  shows "k sdiv 1000000000 = (if k < 0 then - ((- k) div 1000000000) else k div 1000000000)"
  by (simp add: signed_divide_int_def sgn_if)

lemma sint_div64_Second: "sint (div64 t Second) = sint t sdiv 1000000000"
proof -
  have r: "- (2 ^ 63) \<le> sint t" "sint t < 2 ^ 63"
    using sint_range_size [of t] by (simp_all add: word_size)
  have b: "- (2 ^ 63) \<le> sint t sdiv 1000000000 \<and> sint t sdiv 1000000000 < 2 ^ 63"
    using r unfolding sdiv_pos_divisor by auto
  have "sint (word_of_int (sint t sdiv 1000000000) :: 64 word) = sint t sdiv 1000000000"
    using b by (simp add: sint_sbintrunc' signed_take_bit_int_eq_self)
  then show ?thesis by (simp add: div64_def Second_def)
qed

lemma below_floor: "div64 t Second <s 600 \<longleftrightarrow> sint t < 600000000000"
  unfolding word_sless_alt sint_div64_Second sdiv_pos_divisor by auto

lemma TTL_enforceFloor:
  "TTL (enforceFloor r) = (if sint (TTL r) < 600000000000 then 600 * Second else TTL r)"
  by (simp add: enforceFloor_def below_floor)




section \<open>The calls an operation makes\<close>

lemma MakeApiRequest_log:
  "MakeApiRequest api endpoint b w = (res, w') \<Longrightarrow> snd w' = snd w @ [(endpoint, b)]"
  by (auto simp: MakeApiRequest_def split: prod.splits sum.splits)

lemma getMatchingRecord_log:
  "getMatchingRecord api pd p r zone w = (res, w') \<Longrightarrow>
     \<exists>endpoint. snd w' = snd w @ [(endpoint, CredentialsBody (getCredentials p))]"
  by (auto simp: getMatchingRecord_def Let_def split: prod.splits sum.splits
      dest!: MakeApiRequest_log)

text \<open>
  One turn of the create loop of the second iteration: either the create fails and the
  loop ends with what it had, or the record is added, with some identifier, after one
  create and one lookup.
\<close>

lemma AppendRecords_v2_step:
  "(\<exists>e w1. AppendRecords_v2_loop api pd p zone (r # rest) acc w = ((acc, Some e), w1)
       \<and> snd w1 = snd w @ [(''/dns/create/'' @ LibdnsZoneToPorkbunDomain zone,
                              PayloadBody (recordPayload p zone (enforceFloor r)))])
   \<or> (\<exists>i w2 endpoint.
         AppendRecords_v2_loop api pd p zone (r # rest) acc w =
           AppendRecords_v2_loop api pd p zone rest (acc @ [(enforceFloor r)\<lparr>ID := i\<rparr>]) w2
       \<and> snd w2 = snd w @ [(''/dns/create/'' @ LibdnsZoneToPorkbunDomain zone,
                              PayloadBody (recordPayload p zone (enforceFloor r))),
                            (endpoint, CredentialsBody (getCredentials p))])"
proof -
  let ?ep = "''/dns/create/'' @ LibdnsZoneToPorkbunDomain zone"
  let ?b = "PayloadBody (recordPayload p zone (enforceFloor r))"
  obtain res w1 where m: "MakeApiRequest api ?ep ?b w = (res, w1)"
    by (cases "MakeApiRequest api ?ep ?b w")
  note l1 = MakeApiRequest_log [OF m]
  show ?thesis
  proof (cases "\<exists>response. res = Inr response \<and> status response = ''SUCCESS''")
    case False
    then have "\<exists>e. AppendRecords_v2_loop api pd p zone (r # rest) acc w = ((acc, Some e), w1)"
      using m by (cases res) (auto simp: Let_def)
    then show ?thesis using l1 by blast
  next
    case True
    then obtain response where r: "res = Inr response" "status response = ''SUCCESS''"
      by blast
    obtain created e w2 where
      g: "getMatchingRecord api pd p (enforceFloor r) zone w1 = ((created, e), w2)"
      by (metis prod.exhaust)
    obtain endpoint where
      l2: "snd w2 = snd w1 @ [(endpoint, CredentialsBody (getCredentials p))]"
      using getMatchingRecord_log [OF g] by blast
    let ?i = "if e = None \<and> length created = 1 then ID (created ! 0) else ID (enforceFloor r)"
    have "AppendRecords_v2_loop api pd p zone (r # rest) acc w =
            AppendRecords_v2_loop api pd p zone rest (acc @ [(enforceFloor r)\<lparr>ID := ?i\<rparr>]) w2"
      using m r g by (simp add: Let_def)
    then show ?thesis
      using l1 l2 by (intro disjI2 exI [of _ ?i] exI [of _ w2] exI [of _ endpoint]) simp
  qed
qed

lemma AppendRecords_v2_loop_TTL:
  "AppendRecords_v2_loop api pd p zone recs acc w = ((out, None), w') \<Longrightarrow>
     map TTL out = map TTL acc @ map (\<lambda>r. TTL (enforceFloor r)) recs"
proof (induction recs arbitrary: acc w)
  case Nil
  then show ?case by auto
next
  case (Cons r rest)
  from AppendRecords_v2_step [of api pd p zone r rest acc w] show ?case
  proof (elim disjE exE conjE)
    fix e w1
    assume "AppendRecords_v2_loop api pd p zone (r # rest) acc w = ((acc, Some e), w1)"
    with Cons.prems show ?thesis by simp
  next
    fix i w2 endpoint
    assume "AppendRecords_v2_loop api pd p zone (r # rest) acc w =
           AppendRecords_v2_loop api pd p zone rest (acc @ [(enforceFloor r)\<lparr>ID := i\<rparr>]) w2"
    with Cons.prems have
      "AppendRecords_v2_loop api pd p zone rest (acc @ [(enforceFloor r)\<lparr>ID := i\<rparr>]) w2
         = ((out, None), w')"
      by simp
    from Cons.IH [OF this] show ?thesis by simp
  qed
qed

text \<open>The same turn in the first iteration, where a failure returns nil.\<close>

lemma AppendRecords_v1_step:
  "(\<exists>e w1. AppendRecords_v1_loop api p zone (r # rest) acc w = (([], Some e), w1)
       \<and> snd w1 = snd w @ [(''dns/create/'' @ trimZone zone,
                              PayloadBody (createRequest_v1 p zone (enforceFloor r)))])
   \<or> (\<exists>w1. AppendRecords_v1_loop api p zone (r # rest) acc w =
           AppendRecords_v1_loop api p zone rest (acc @ [enforceFloor r]) w1
       \<and> snd w1 = snd w @ [(''dns/create/'' @ trimZone zone,
                              PayloadBody (createRequest_v1 p zone (enforceFloor r)))])"
proof -
  let ?ep = "''dns/create/'' @ trimZone zone"
  let ?b = "PayloadBody (createRequest_v1 p zone (enforceFloor r))"
  obtain res w1 where m: "MakeApiRequest api ?ep ?b w = (res, w1)"
    by (cases "MakeApiRequest api ?ep ?b w")
  note l1 = MakeApiRequest_log [OF m]
  show ?thesis
  proof (cases "\<exists>response. res = Inr response \<and> status response = ''SUCCESS''")
    case False
    then have "\<exists>e. AppendRecords_v1_loop api p zone (r # rest) acc w = (([], Some e), w1)"
      using m by (cases res) (auto simp: Let_def)
    then show ?thesis using l1 by blast
  next
    case True
    then have "AppendRecords_v1_loop api p zone (r # rest) acc w =
                 AppendRecords_v1_loop api p zone rest (acc @ [enforceFloor r]) w1"
      using m by (auto simp: Let_def)
    then show ?thesis using l1 by blast
  qed
qed

lemma AppendRecords_v1_loop_TTL:
  "AppendRecords_v1_loop api p zone recs acc w = ((out, None), w') \<Longrightarrow>
     map TTL out = map TTL acc @ map (\<lambda>r. TTL (enforceFloor r)) recs"
proof (induction recs arbitrary: acc w)
  case Nil
  then show ?case by auto
next
  case (Cons r rest)
  from AppendRecords_v1_step [of api p zone r rest acc w] show ?case
  proof (elim disjE exE conjE)
    fix e w1
    assume "AppendRecords_v1_loop api p zone (r # rest) acc w = (([], Some e), w1)"
    with Cons.prems show ?thesis by simp
  next
    fix w1
    assume "AppendRecords_v1_loop api p zone (r # rest) acc w =
           AppendRecords_v1_loop api p zone rest (acc @ [enforceFloor r]) w1"
    with Cons.prems have
      "AppendRecords_v1_loop api p zone rest (acc @ [enforceFloor r]) w1 = ((out, None), w')"
      by simp
    from Cons.IH [OF this] show ?thesis by simp
  qed
qed

section \<open>The floor in the result and on the wire\<close>

text \<open>
  Claim C10.  When \<^verbatim>\<open>AppendRecords\<close> succeeds, it returns one record for each input
  record, and the record returned for an input whose TTL is below 600 seconds has a TTL
  of exactly 600 seconds.  This holds in both iterations: the floor is written to the
  loop's copy of the record, and that copy is what is appended to the result.
\<close>

theorem AppendRecords_reports_floor:
  assumes "AppendRecords_v2 api pd p zone recs w = ((out, None), w')
             \<or> AppendRecords_v1 api p zone recs w = ((out, None), w')"
    and "i < length recs"
    and "sint (TTL (recs ! i)) < 600 * 1000000000"
  shows "length out = length recs \<and> TTL (out ! i) = 600 * Second"
proof -
  have m: "map TTL out = map (\<lambda>r. TTL (enforceFloor r)) recs"
    using assms(1) AppendRecords_v2_loop_TTL [of api pd p zone recs "[]" w out w']
      AppendRecords_v1_loop_TTL [of api p zone recs "[]" w out w']
    by (auto simp: AppendRecords_v2_def AppendRecords_v1_def)
  then have len: "length out = length recs"
    by (metis length_map)
  have "TTL (out ! i) = map TTL out ! i"
    using len assms(2) by simp
  also have "\<dots> = TTL (enforceFloor (recs ! i))"
    using m assms(2) by simp
  also have "\<dots> = 600 * Second"
    using assms(3) by (simp add: TTL_enforceFloor)
  finally show ?thesis using len by simp
qed

theorem AppendRecords_reports_floor_witness:
  "snd (fst (AppendRecords_v2 replay parseSeconds prov ''example.com.'' [txt60]
               ([Inr (success []), Inr (success [])], []))) = None
   \<and> sint (TTL ([txt60] ! 0)) < 600 * 1000000000
   \<and> TTL (fst (fst (AppendRecords_v2 replay parseSeconds prov ''example.com.'' [txt60]
                      ([Inr (success []), Inr (success [])], []))) ! 0) = 600 * Second"
proof -
  let ?run = "AppendRecords_v2 replay parseSeconds prov ''example.com.'' [txt60]
                ([Inr (success []), Inr (success [])], [])"
  have ok: "snd (fst ?run) = None"
    by (simp add: AppendRecords_v2_def Let_def MakeApiRequest_def replay_def success_def
        getMatchingRecord_def)
  then have run: "?run = ((fst (fst ?run), None), snd ?run)"
    by (metis prod.collapse)
  have below: "sint (TTL ([txt60] ! 0)) < 600 * 1000000000"
    by (simp add: txt60_def rec0_def Second_def)
  from AppendRecords_reports_floor [OF disjI1 [OF run] _ below] ok below
  show ?thesis by simp
qed




lemma sentTTLs_snoc_credentials:
  "sentTTLs (log @ [(endpoint, CredentialsBody c)]) = sentTTLs log"
  by (simp add: sentTTLs_def)










section \<open>Stopping at the first failure\<close>

lemma AppendRecords_v2_loop_append:
  "AppendRecords_v2_loop api pd p zone pre acc w = ((out, None), w1) \<Longrightarrow>
     AppendRecords_v2_loop api pd p zone (pre @ rest) acc w =
       AppendRecords_v2_loop api pd p zone rest out w1"
proof (induction pre arbitrary: acc w)
  case Nil
  then show ?case by simp
next
  case (Cons a pre)
  then show ?case
    by (auto simp: Let_def split: prod.splits sum.splits if_splits)
qed

lemma AppendRecords_v1_loop_append:
  "AppendRecords_v1_loop api p zone pre acc w = ((out, None), w1) \<Longrightarrow>
     AppendRecords_v1_loop api p zone (pre @ rest) acc w =
       AppendRecords_v1_loop api p zone rest out w1"
proof (induction pre arbitrary: acc w)
  case Nil
  then show ?case by simp
next
  case (Cons a pre)
  then show ?case
    by (auto simp: Let_def split: prod.splits sum.splits if_splits)
qed

text \<open>
  Claim C8, as the code has it.  When the creates of the records before \<open>r\<close> all
  succeed and the create of \<open>r\<close> fails, by an error of the round trip or by a status
  other than \<open>SUCCESS\<close>, \<^verbatim>\<open>AppendRecords\<close> ends in the state that failing call left: no
  call follows it, for \<open>r\<close> or for any later record.  The second iteration
  returns the error with exactly the records created before; the first iteration
  returns the error with no record.
\<close>

theorem AppendRecords_stops_at_first_failure:
  "(AppendRecords_v2 api pd p zone pre w = ((created, None), w1)
      \<and> MakeApiRequest api (''/dns/create/'' @ LibdnsZoneToPorkbunDomain zone)
            (PayloadBody (recordPayload p zone (enforceFloor r))) w1 = (res, w2)
      \<and> createFailure res = Some e
    \<longrightarrow> AppendRecords_v2 api pd p zone (pre @ r # post) w = ((created, Some e), w2))
   \<and> (AppendRecords_v1 api p zone pre w = ((created1, None), w1)
      \<and> MakeApiRequest api (''dns/create/'' @ trimZone zone)
            (PayloadBody (createRequest_v1 p zone (enforceFloor r))) w1 = (res, w2)
      \<and> createFailure res = Some e
    \<longrightarrow> AppendRecords_v1 api p zone (pre @ r # post) w = (([], Some e), w2))"
proof (intro conjI impI; elim conjE)
  assume a: "AppendRecords_v2 api pd p zone pre w = ((created, None), w1)"
    and m: "MakeApiRequest api (''/dns/create/'' @ LibdnsZoneToPorkbunDomain zone)
            (PayloadBody (recordPayload p zone (enforceFloor r))) w1 = (res, w2)"
    and f: "createFailure res = Some e"
  have "AppendRecords_v2_loop api pd p zone (r # post) created w1 = ((created, Some e), w2)"
    using m f by (cases res) (auto simp: createFailure_def Let_def split: if_splits)
  then show "AppendRecords_v2 api pd p zone (pre @ r # post) w = ((created, Some e), w2)"
    using AppendRecords_v2_loop_append [of api pd p zone pre "[]" w created w1 "r # post"] a
    by (simp add: AppendRecords_v2_def)
next
  assume a: "AppendRecords_v1 api p zone pre w = ((created1, None), w1)"
    and m: "MakeApiRequest api (''dns/create/'' @ trimZone zone)
            (PayloadBody (createRequest_v1 p zone (enforceFloor r))) w1 = (res, w2)"
    and f: "createFailure res = Some e"
  have "AppendRecords_v1_loop api p zone (r # post) created1 w1 = (([], Some e), w2)"
    using m f by (cases res) (auto simp: createFailure_def Let_def split: if_splits)
  then show "AppendRecords_v1 api p zone (pre @ r # post) w = (([], Some e), w2)"
    using AppendRecords_v1_loop_append [of api p zone pre "[]" w created1 w1 "r # post"] a
    by (simp add: AppendRecords_v1_def)
qed

theorem AppendRecords_stops_at_first_failure_witness:
  "fst (AppendRecords_v2 replay parseSeconds prov ''example.com.'' ([txt60] @ txt60 # [txt60])
          ([Inr (success []), Inr (success []), Inr (failure ''boom'')], []))
     = ([txt60\<lparr>TTL := 600 * Second\<rparr>], Some (InvalidResponseStatus ''ERROR''))
   \<and> fst (AppendRecords_v1 replay prov ''example.com.'' ([txt60] @ txt60 # [txt60])
          ([Inr (success []), Inr (failure ''boom'')], []))
     = ([], Some (InvalidResponseStatus ''ERROR''))"
proof -
  let ?z = "''example.com.''"
  let ?s2 = "([Inr (success []), Inr (success []), Inr (failure ''boom'')], [])
               :: (string + Response) list world"
  let ?s1 = "([Inr (success []), Inr (failure ''boom'')], []) :: (string + Response) list world"
  let ?pre2 = "AppendRecords_v2 replay parseSeconds prov ?z [txt60] ?s2"
  let ?pre1 = "AppendRecords_v1 replay prov ?z [txt60] ?s1"
  let ?m2 = "MakeApiRequest replay (''/dns/create/'' @ LibdnsZoneToPorkbunDomain ?z)
               (PayloadBody (recordPayload prov ?z (enforceFloor txt60))) (snd ?pre2)"
  let ?m1 = "MakeApiRequest replay (''dns/create/'' @ trimZone ?z)
               (PayloadBody (createRequest_v1 prov ?z (enforceFloor txt60))) (snd ?pre1)"
  have fl: "enforceFloor txt60 = txt60\<lparr>TTL := 600 * Second\<rparr>"
    by (simp add: enforceFloor_def txt60_def rec0_def div64_def Second_def word_sless_alt)
  have p2: "?pre2 = (([txt60\<lparr>TTL := 600 * Second\<rparr>], None), snd ?pre2)"
    by (simp add: AppendRecords_v2_def Let_def MakeApiRequest_def replay_def success_def
        getMatchingRecord_def fl)
  have p1: "?pre1 = (([txt60\<lparr>TTL := 600 * Second\<rparr>], None), snd ?pre1)"
    by (simp add: AppendRecords_v1_def Let_def MakeApiRequest_def replay_def success_def fl)
  have f2: "createFailure (fst ?m2) = Some (InvalidResponseStatus ''ERROR'')"
    by (simp add: AppendRecords_v2_def Let_def MakeApiRequest_def replay_def success_def
        failure_def getMatchingRecord_def createFailure_def)
  have f1: "createFailure (fst ?m1) = Some (InvalidResponseStatus ''ERROR'')"
    by (simp add: AppendRecords_v1_def Let_def MakeApiRequest_def replay_def success_def
        failure_def createFailure_def)
  have c2: "AppendRecords_v2 replay parseSeconds prov ?z ([txt60] @ txt60 # [txt60]) ?s2
      = (([txt60\<lparr>TTL := 600 * Second\<rparr>], Some (InvalidResponseStatus ''ERROR'')), snd ?m2)"
    using AppendRecords_stops_at_first_failure
      [of replay parseSeconds prov ?z "[txt60]" ?s2 "[txt60\<lparr>TTL := 600 * Second\<rparr>]"
        "snd ?pre2" txt60 "fst ?m2" "snd ?m2" "InvalidResponseStatus ''ERROR''" "[txt60]",
        THEN conjunct1]
      p2 f2
    by (simp only: prod.collapse simp_thms)
  have c1: "AppendRecords_v1 replay prov ?z ([txt60] @ txt60 # [txt60]) ?s1
      = (([], Some (InvalidResponseStatus ''ERROR'')), snd ?m1)"
    using AppendRecords_stops_at_first_failure
      [of replay parseSeconds prov ?z "[txt60]" ?s1 "[]"
        "snd ?pre1" txt60 "fst ?m1" "snd ?m1" "InvalidResponseStatus ''ERROR''" "[txt60]"
        "[txt60\<lparr>TTL := 600 * Second\<rparr>]",
        THEN conjunct2]
      p1 f1
    by (simp only: prod.collapse simp_thms)
  show ?thesis
    unfolding c1 c2 by simp
qed

text \<open>
  Claim C8 as stated fails on the first iteration, where the record created before the
  failure is not returned: the first create succeeds, the second is refused, and the
  result is empty.
\<close>

theorem AppendRecords_v1_drops_created:
  "fst (AppendRecords_v1 replay prov ''example.com.'' [txt60]
          ([Inr (success []), Inr (failure ''boom'')], []))
     = ([txt60\<lparr>TTL := 600 * Second\<rparr>], None)
   \<and> fst (AppendRecords_v1 replay prov ''example.com.'' [txt60, txt60]
          ([Inr (success []), Inr (failure ''boom'')], []))
     = ([], Some (InvalidResponseStatus ''ERROR''))"
proof -
  have fl: "enforceFloor txt60 = txt60\<lparr>TTL := 600 * Second\<rparr>"
    by (simp add: enforceFloor_def txt60_def rec0_def div64_def Second_def word_sless_alt)
  show ?thesis
    by (simp add: AppendRecords_v1_def Let_def MakeApiRequest_def replay_def success_def
        failure_def fl)
qed

section \<open>Deleting by lookup\<close>

lemma deleteQueued_all:
  "deletesGoThrough api \<Longrightarrow>
     \<exists>w2. deleteQueued api p zone ms acc w = ((acc @ ms, None), w2)
       \<and> snd w2 = snd w @ map (deleteCall p zone) ms"
proof (induction ms arbitrary: acc w)
  case Nil
  then show ?case by simp
next
  case (Cons m ms)
  let ?ep = "''/dns/delete/'' @ LibdnsZoneToPorkbunDomain zone @ ''/'' @ ID m"
  from Cons.prems obtain response st' where
    a: "api (fst w) (''/dns/delete/'' @ (LibdnsZoneToPorkbunDomain zone @ ''/'' @ ID m),
          CredentialsBody (getCredentials p)) = (Inr response, st')"
    unfolding deletesGoThrough_def by blast
  let ?w1 = "(st', snd w @ [deleteCall p zone m])"
  have m: "MakeApiRequest api ?ep (CredentialsBody (getCredentials p)) w = (Inr response, ?w1)"
    using a by (simp add: MakeApiRequest_def deleteCall_def)
  from Cons.IH [OF Cons.prems, of "acc @ [m]" ?w1] obtain w2 where
    "deleteQueued api p zone ms (acc @ [m]) ?w1 = (((acc @ [m]) @ ms, None), w2)"
    "snd w2 = snd ?w1 @ map (deleteCall p zone) ms"
    by blast
  then show ?case using m by simp
qed

lemma deleteQueued_extends:
  "deleteQueued api p zone ms acc w = ((out, err), w') \<Longrightarrow> \<exists>more. out = acc @ more"
proof (induction ms arbitrary: acc w)
  case Nil
  then show ?case by simp
next
  case (Cons m ms)
  then show ?case
    by (fastforce split: prod.splits sum.splits)
qed

text \<open>
  One turn of the delete loop: the deleted records grow to some \<open>d\<close>, and the loop either
  ends there with an error or goes on from there, whatever records follow.
\<close>

lemma DeleteRecords_v2_step:
  "\<exists>d w2. (\<exists>more. d = acc @ more)
     \<and> ((\<exists>e. \<forall>rest. DeleteRecords_v2_loop api pd p zone (r # rest) acc w = ((d, Some e), w2))
        \<or> (\<forall>rest. DeleteRecords_v2_loop api pd p zone (r # rest) acc w =
                     DeleteRecords_v2_loop api pd p zone rest d w2))"
proof -
  obtain ms e w1 where g: "getMatchingRecord api pd p r zone w = ((ms, e), w1)"
    by (metis prod.exhaust)
  let ?queue = "if ID r = '''' then ms else [r]"
  let ?w1 = "if ID r = '''' then w1 else w"
  obtain d e2 w2 where q: "deleteQueued api p zone ?queue acc ?w1 = ((d, e2), w2)"
    by (metis prod.exhaust)
  from deleteQueued_extends [OF q] have x: "\<exists>more. d = acc @ more" .
  show ?thesis
  proof (cases "ID r = '''' \<and> e \<noteq> None")
    case True
    then obtain err where "e = Some err" by auto
    then have "\<forall>rest. DeleteRecords_v2_loop api pd p zone (r # rest) acc w = ((acc, Some err), w1)"
      using True g by simp
    then show ?thesis
      by (intro exI [of _ acc] exI [of _ w1]) blast
  next
    case False
    show ?thesis
    proof (cases e2)
      case (Some err)
      have "\<forall>rest. DeleteRecords_v2_loop api pd p zone (r # rest) acc w = ((d, Some err), w2)"
      proof (cases "ID r = ''''")
        case True
        then show ?thesis using False g q Some by (simp del: deleteQueued.simps)
      next
        case F: False
        then show ?thesis using q Some by (simp del: deleteQueued.simps)
      qed
      then show ?thesis using x
        by (intro exI [of _ d] exI [of _ w2]) blast
    next
      case None
      have "\<forall>rest. DeleteRecords_v2_loop api pd p zone (r # rest) acc w =
                    DeleteRecords_v2_loop api pd p zone rest d w2"
      proof (cases "ID r = ''''")
        case True
        then show ?thesis using False g q None by (simp del: deleteQueued.simps)
      next
        case F: False
        then show ?thesis using q None by (simp del: deleteQueued.simps)
      qed
      then show ?thesis using x
        by (intro exI [of _ d] exI [of _ w2]) blast
    qed
  qed
qed

lemma DeleteRecords_v2_loop_extends:
  "DeleteRecords_v2_loop api pd p zone recs acc w = ((out, err), w') \<Longrightarrow>
     \<exists>more. out = acc @ more"
proof (induction recs arbitrary: acc w)
  case Nil
  then show ?case by simp
next
  case (Cons r recs)
  from DeleteRecords_v2_step [of acc api pd p zone r w] obtain d w2 more where
    d: "d = acc @ more"
    and s: "(\<exists>e. \<forall>rest. DeleteRecords_v2_loop api pd p zone (r # rest) acc w = ((d, Some e), w2))
        \<or> (\<forall>rest. DeleteRecords_v2_loop api pd p zone (r # rest) acc w =
                     DeleteRecords_v2_loop api pd p zone rest d w2)"
    by blast
  from s show ?case
  proof
    assume "\<exists>e. \<forall>rest. DeleteRecords_v2_loop api pd p zone (r # rest) acc w = ((d, Some e), w2)"
    then show ?thesis using Cons.prems d by auto
  next
    assume "\<forall>rest. DeleteRecords_v2_loop api pd p zone (r # rest) acc w =
                     DeleteRecords_v2_loop api pd p zone rest d w2"
    then have "DeleteRecords_v2_loop api pd p zone recs d w2 = ((out, err), w')"
      using Cons.prems by simp
    from Cons.IH [OF this] d show ?thesis by auto
  qed
qed

lemma DeleteRecords_v2_loop_append:
  "DeleteRecords_v2_loop api pd p zone pre acc w = ((out, None), w1) \<Longrightarrow>
     DeleteRecords_v2_loop api pd p zone (pre @ rest) acc w =
       DeleteRecords_v2_loop api pd p zone rest out w1"
proof (induction pre arbitrary: acc w)
  case Nil
  then show ?case by simp
next
  case (Cons r pre)
  from DeleteRecords_v2_step [of acc api pd p zone r w] obtain d w2 where
    s: "(\<exists>e. \<forall>rest. DeleteRecords_v2_loop api pd p zone (r # rest) acc w = ((d, Some e), w2))
        \<or> (\<forall>rest. DeleteRecords_v2_loop api pd p zone (r # rest) acc w =
                     DeleteRecords_v2_loop api pd p zone rest d w2)"
    by blast
  from s show ?case
  proof
    assume "\<exists>e. \<forall>rest. DeleteRecords_v2_loop api pd p zone (r # rest) acc w = ((d, Some e), w2)"
    then show ?thesis using Cons.prems by auto
  next
    assume a: "\<forall>rest. DeleteRecords_v2_loop api pd p zone (r # rest) acc w =
                     DeleteRecords_v2_loop api pd p zone rest d w2"
    then have "DeleteRecords_v2_loop api pd p zone pre d w2 = ((out, None), w1)"
      using Cons.prems by simp
    from Cons.IH [OF this] a show ?thesis by simp
  qed
qed

text \<open>
  Claim C9.  Take an input record \<open>r\<close> without identifier, reached after the records
  before it were handled without error, whose lookup returns the matches \<open>ms\<close>, on a
  remote side where delete round trips do not fail.  Then \<^verbatim>\<open>DeleteRecords\<close> issues one
  delete call for each match, in order, right after the lookup, goes on to the records
  after \<open>r\<close>, and every match is in the sequence it returns.
\<close>

theorem DeleteRecords_deletes_every_match:
  assumes "DeleteRecords_v2 api pd p zone pre w0 = ((deleted, None), w)"
    and "ID r = ''''"
    and "getMatchingRecord api pd p r zone w = ((ms, None), w1)"
    and "deletesGoThrough api"
  shows "\<exists>w2 more.
           snd w2 = snd w1 @ map (deleteCall p zone) ms
         \<and> DeleteRecords_v2 api pd p zone (pre @ r # rest) w0 =
             DeleteRecords_v2_loop api pd p zone rest (deleted @ ms) w2
         \<and> fst (fst (DeleteRecords_v2 api pd p zone (pre @ r # rest) w0)) = deleted @ ms @ more"
proof -
  from deleteQueued_all [OF assms(4), of p zone ms deleted w1] obtain w2 where
    q: "deleteQueued api p zone ms deleted w1 = ((deleted @ ms, None), w2)"
    and l: "snd w2 = snd w1 @ map (deleteCall p zone) ms"
    by blast
  have s: "DeleteRecords_v2_loop api pd p zone (r # rest) deleted w =
             DeleteRecords_v2_loop api pd p zone rest (deleted @ ms) w2"
    using assms(2,3) q by simp
  have e: "DeleteRecords_v2 api pd p zone (pre @ r # rest) w0 =
             DeleteRecords_v2_loop api pd p zone rest (deleted @ ms) w2"
    using DeleteRecords_v2_loop_append [of api pd p zone pre "[]" w0 deleted w "r # rest"]
      assms(1) s
    by (simp add: DeleteRecords_v2_def)
  obtain out err w' where
    f: "DeleteRecords_v2_loop api pd p zone rest (deleted @ ms) w2 = ((out, err), w')"
    by (metis prod.exhaust)
  from DeleteRecords_v2_loop_extends [OF f] obtain more where "out = (deleted @ ms) @ more"
    by blast
  then show ?thesis using l e f
    by (intro exI [of _ w2] exI [of _ more]) simp
qed

theorem DeleteRecords_deletes_every_match_witness:
  "fst (DeleteRecords_v2 (always (success [txtWire ''1'', txtWire ''2'', txtWire ''3'']))
          parseSeconds prov ''example.com.'' [txt60] ((), []))
     = (map (\<lambda>i. toLibdnsRecord parseSeconds (txtWire i) ''example.com.'') [''1'', ''2'', ''3''],
        None)
   \<and> length (snd (snd (DeleteRecords_v2 (always (success [txtWire ''1'', txtWire ''2'', txtWire ''3'']))
          parseSeconds prov ''example.com.'' [txt60] ((), [])))) = 4"
proof -
  let ?api = "always (success [txtWire ''1'', txtWire ''2'', txtWire ''3''])"
  let ?z = "''example.com.''"
  let ?ms = "map (\<lambda>i. toLibdnsRecord parseSeconds (txtWire i) ?z) [''1'', ''2'', ''3'']"
  let ?g = "getMatchingRecord ?api parseSeconds prov txt60 ?z ((), [])"
  have h1: "DeleteRecords_v2 ?api parseSeconds prov ?z [] ((), []) = (([], None), ((), []))"
    by (simp add: DeleteRecords_v2_def)
  have h2: "ID txt60 = ''''"
    by (simp add: txt60_def rec0_def)
  have h3: "?g = ((?ms, None), snd ?g)"
    by (simp add: getMatchingRecord_def Let_def MakeApiRequest_def always_def success_def)
  have h4: "deletesGoThrough ?api"
    by (simp add: deletesGoThrough_def always_def)
  have l: "length (snd (snd ?g)) = 1"
    by (simp add: getMatchingRecord_def Let_def MakeApiRequest_def always_def success_def)
  from DeleteRecords_deletes_every_match [OF h1 h2 h3 h4, of "[]"] obtain w2 more where
    a: "snd w2 = snd (snd ?g) @ map (deleteCall prov ?z) ?ms"
    and b: "DeleteRecords_v2 ?api parseSeconds prov ?z ([] @ [txt60]) ((), []) =
              DeleteRecords_v2_loop ?api parseSeconds prov ?z [] ([] @ ?ms) w2"
    by blast
  show ?thesis
    using a b l by simp
qed

section \<open>Routing in SetRecords\<close>

lemma getMatchingRecord_isLookup:
  "getMatchingRecord api pd p r zone w = (res, w') \<Longrightarrow>
     \<exists>q. snd w' = snd w @ [q] \<and> isLookup q"
  by (auto simp: getMatchingRecord_def Let_def isLookup_def split: prod.splits sum.splits
      dest!: MakeApiRequest_log)

text \<open>The turns of the sorting loop, one lemma for each way through its body.\<close>

lemma route_with_id:
  "ID r \<noteq> '''' \<Longrightarrow>
     SetRecords_v2_route api pd p zone (r # rest) updates creates w =
       SetRecords_v2_route api pd p zone rest (updates @ [r]) creates w"
  by simp

lemma route_lookup_fails:
  "ID r = '''' \<Longrightarrow> getMatchingRecord api pd p r zone w = ((ms, Some err), w1) \<Longrightarrow>
     SetRecords_v2_route api pd p zone (r # rest) updates creates w = (Inl err, w1)"
  by simp

lemma route_no_match:
  "ID r = '''' \<Longrightarrow> getMatchingRecord api pd p r zone w = (([], None), w1) \<Longrightarrow>
     SetRecords_v2_route api pd p zone (r # rest) updates creates w =
       SetRecords_v2_route api pd p zone rest updates (creates @ [r]) w1"
  by simp

lemma route_many_matches:
  "ID r = '''' \<Longrightarrow> getMatchingRecord api pd p r zone w = ((ms, None), w1) \<Longrightarrow>
     length ms > 1 \<Longrightarrow>
     SetRecords_v2_route api pd p zone (r # rest) updates creates w =
       (Inl (TooManyMatches r), w1)"
  by auto

lemma route_one_match:
  "ID r = '''' \<Longrightarrow> getMatchingRecord api pd p r zone w = ((ms, None), w1) \<Longrightarrow>
     length ms = 1 \<Longrightarrow>
     SetRecords_v2_route api pd p zone (r # rest) updates creates w =
       SetRecords_v2_route api pd p zone rest (updates @ [r\<lparr>ID := ID (ms ! 0)\<rparr>]) creates w1"
  by auto

lemma route_cases:
  obtains (with_id) "ID r \<noteq> ''''"
  | (fails) ms err w1 where "ID r = ''''" "getMatchingRecord api pd p r zone w = ((ms, Some err), w1)"
  | (none) w1 where "ID r = ''''" "getMatchingRecord api pd p r zone w = (([], None), w1)"
  | (many) ms w1 where "ID r = ''''" "getMatchingRecord api pd p r zone w = ((ms, None), w1)"
      "length ms > 1"
  | (one) ms w1 where "ID r = ''''" "getMatchingRecord api pd p r zone w = ((ms, None), w1)"
      "length ms = 1"
proof -
  obtain ms e w1 where g: "getMatchingRecord api pd p r zone w = ((ms, e), w1)"
    by (metis prod.exhaust)
  have "length ms = 0 \<or> length ms = 1 \<or> length ms > 1" by arith
  then show thesis
    using g that by (cases "ID r = ''''"; cases e) auto
qed

lemma SetRecords_v2_route_log:
  "SetRecords_v2_route api pd p zone recs updates creates w = (res, w') \<Longrightarrow>
     \<exists>qs. snd w' = snd w @ qs \<and> list_all isLookup qs"
proof (induction recs arbitrary: updates creates w)
  case Nil
  then show ?case by simp
next
  case (Cons r recs)
  show ?case
  proof (cases rule: route_cases [where r = r and api = api and pd = pd and p = p and zone = zone and w = w])
    case with_id
    from Cons.prems [unfolded route_with_id [OF with_id]] Cons.IH show ?thesis by blast
  next
    case (fails ms err w1)
    from Cons.prems [unfolded route_lookup_fails [OF fails]] have "w' = w1" by simp
    then show ?thesis using getMatchingRecord_isLookup [OF fails(2)] by auto
  next
    case (none w1)
    from Cons.IH [OF Cons.prems [unfolded route_no_match [OF none]]]
      getMatchingRecord_isLookup [OF none(2)]
    show ?thesis by auto
  next
    case (many ms w1)
    from Cons.prems [unfolded route_many_matches [OF many]] have "w' = w1" by simp
    then show ?thesis using getMatchingRecord_isLookup [OF many(2)] by auto
  next
    case (one ms w1)
    from Cons.IH [OF Cons.prems [unfolded route_one_match [OF one]]]
      getMatchingRecord_isLookup [OF one(2)]
    show ?thesis by auto
  qed
qed

lemma SetRecords_v2_route_append:
  "SetRecords_v2_route api pd p zone pre updates creates w = (Inr (u, c), w1) \<Longrightarrow>
     SetRecords_v2_route api pd p zone (pre @ rest) updates creates w =
       SetRecords_v2_route api pd p zone rest u c w1"
proof (induction pre arbitrary: updates creates w)
  case Nil
  then show ?case by simp
next
  case (Cons r pre)
  show ?case
  proof (cases rule: route_cases [where r = r and api = api and pd = pd and p = p and zone = zone and w = w])
    case with_id
    from Cons.IH [OF Cons.prems [unfolded route_with_id [OF with_id]]]
    show ?thesis by (simp only: append_Cons route_with_id [OF with_id])
  next
    case (fails ms err w1)
    from Cons.prems [unfolded route_lookup_fails [OF fails]] show ?thesis by simp
  next
    case (none w1)
    from Cons.IH [OF Cons.prems [unfolded route_no_match [OF none]]]
    show ?thesis by (simp only: append_Cons route_no_match [OF none])
  next
    case (many ms w1)
    from Cons.prems [unfolded route_many_matches [OF many]] show ?thesis by simp
  next
    case (one ms w1)
    from Cons.IH [OF Cons.prems [unfolded route_one_match [OF one]]]
    show ?thesis by (simp only: append_Cons route_one_match [OF one])
  qed
qed

text \<open>
  Claim C4.  Take an input record \<open>r\<close> without identifier, reached after the records
  before it were sorted without error, whose lookup by name and type returns more than
  one match.  Then \<^verbatim>\<open>SetRecords\<close> fails with the error that names \<open>r\<close>, returns no
  record, and every call it has made is a lookup: nothing was created or updated.
\<close>

theorem SetRecords_ambiguous_match_fails:
  assumes "SetRecords_v2_route api pd p zone pre [] [] w = (Inr (updates, creates), w1)"
    and "ID r = ''''"
    and "getMatchingRecord api pd p r zone w1 = ((ms, None), w2)"
    and "length ms > 1"
  shows "SetRecords_v2 api pd p zone (pre @ r # post) w = (([], Some (TooManyMatches r)), w2)
         \<and> (\<exists>qs. snd w2 = snd w @ qs \<and> list_all isLookup qs)"
proof -
  have s: "SetRecords_v2_route api pd p zone (r # post) updates creates w1
             = (Inl (TooManyMatches r), w2)"
    using route_many_matches [OF assms(2,3,4)] .
  have r: "SetRecords_v2_route api pd p zone (pre @ r # post) [] [] w
             = (Inl (TooManyMatches r), w2)"
    using SetRecords_v2_route_append [OF assms(1), of "r # post"] s by simp
  from SetRecords_v2_route_log [OF r] show ?thesis
    using r by (simp add: SetRecords_v2_def)
qed

theorem SetRecords_ambiguous_match_fails_witness:
  "SetRecords_v2 (always (success [txtWire ''1'', txtWire ''2''])) parseSeconds prov
     ''example.com.'' ([] @ txt60 # [www]) ((), [])
   = (([], Some (TooManyMatches txt60)),
      ((), [(''/dns/retrieveByNameType/example.com/TXT/libdns_test'',
             CredentialsBody (getCredentials prov))]))"
proof -
  let ?api = "always (success [txtWire ''1'', txtWire ''2''])"
  let ?z = "''example.com.''"
  let ?g = "getMatchingRecord ?api parseSeconds prov txt60 ?z ((), [])"
  have h1: "SetRecords_v2_route ?api parseSeconds prov ?z [] [] [] ((), []) = (Inr ([], []), ((), []))"
    by simp
  have h2: "ID txt60 = ''''"
    by (simp add: txt60_def rec0_def)
  have h3: "?g = ((map (\<lambda>i. toLibdnsRecord parseSeconds (txtWire i) ?z) [''1'', ''2''], None),
                  ((), [(''/dns/retrieveByNameType/example.com/TXT/libdns_test'',
                         CredentialsBody (getCredentials prov))]))"
    by (simp add: getMatchingRecord_def Let_def MakeApiRequest_def always_def success_def
        txt60_def rec0_def RelativeName_def TrimSuffix_def HasSuffix_def
        LibdnsZoneToPorkbunDomain_def)
  from SetRecords_ambiguous_match_fails [OF h1 h2 h3, of "[www]"] show ?thesis
    by simp
qed

lemma Contains_existingCoordinates_v1:
  "Contains (existingCoordinates_v1 existing s) c \<longleftrightarrow>
     Contains s c \<or> c \<in> getRecordCoordinates ` set existing"
  by (induction existing arbitrary: s) (auto simp: Contains_def Add_def)

lemma Contains_listed:
  "Contains (existingCoordinates_v1 existing NewSet) (getRecordCoordinates r) \<longleftrightarrow>
     listed existing r"
proof -
  have "\<not> Contains NewSet (getRecordCoordinates r)"
    by (simp add: Contains_def NewSet_def)
  moreover have "getRecordCoordinates r \<in> getRecordCoordinates ` set existing
      \<longleftrightarrow> listed existing r"
    unfolding listed_def by (metis (no_types) imageE image_eqI)
  ultimately show ?thesis
    by (simp add: Contains_existingCoordinates_v1)
qed

lemma SetRecords_v1_route_filter:
  "SetRecords_v1_route s recs updates creates =
     (updates @ filter (\<lambda>r. Contains s (getRecordCoordinates r)) recs,
      creates @ filter (\<lambda>r. \<not> Contains s (getRecordCoordinates r)) recs)"
  by (induction recs arbitrary: updates creates) simp_all

lemma getMatchingRecord_readOnly:
  assumes "readOnlyLookups api"
  shows "\<exists>q. getMatchingRecord api pd p r zone (st, log) =
           (lookupAt api pd p zone st r, (st, log @ [q]))"
proof -
  let ?name = "LibdnsZoneToPorkbunDomain zone @ ''/'' @ Type r @ ''/''
                 @ (if RelativeName (Name r) zone = ''@'' then '''' else RelativeName (Name r) zone)"
  let ?q = "(''/dns/retrieveByNameType/'' @ ?name, CredentialsBody (getCredentials p))"
  have s: "snd (api st ?q) = st"
    using assms unfolding readOnlyLookups_def by blast
  obtain a where a: "api st ?q = (a, st)"
    using s by (cases "api st ?q") auto
  show ?thesis
    using a
    by (intro exI [of _ ?q])
      (cases a; simp add: getMatchingRecord_def lookupAt_def Let_def MakeApiRequest_def)
qed

lemma SetRecords_v2_route_readOnly:
  assumes "readOnlyLookups api"
  shows "SetRecords_v2_route api pd p zone recs updates creates (st, log) = (Inr (u, c), w2) \<Longrightarrow>
     fst w2 = st
     \<and> c = creates @ filter (\<lambda>r. ID r = '''' \<and> fst (lookupAt api pd p zone st r) = []) recs
     \<and> u = updates @ map (resolved api pd p zone st)
           (filter (\<lambda>r. ID r \<noteq> '''' \<or> fst (lookupAt api pd p zone st r) \<noteq> []) recs)
     \<and> (\<forall>r \<in> set recs. ID r = '''' \<longrightarrow> length (fst (lookupAt api pd p zone st r)) \<le> 1)"
proof (induction recs arbitrary: updates creates log)
  case Nil
  then show ?case by auto
next
  case (Cons r recs)
  obtain q where g: "getMatchingRecord api pd p r zone (st, log) =
      (lookupAt api pd p zone st r, (st, log @ [q]))"
    using getMatchingRecord_readOnly [OF assms] by blast
  show ?case
  proof (cases rule: route_cases [where r = r and api = api and pd = pd and p = p
        and zone = zone and w = "(st, log)"])
    case with_id
    from Cons.IH [OF Cons.prems [unfolded route_with_id [OF with_id]]] with_id
    show ?thesis by (simp add: resolved_def)
  next
    case (fails ms err w1)
    from Cons.prems [unfolded route_lookup_fails [OF fails]] show ?thesis by simp
  next
    case (none w1)
    from none(2) g have l: "lookupAt api pd p zone st r = ([], None)" "w1 = (st, log @ [q])"
      by simp_all
    from Cons.IH [OF Cons.prems [unfolded route_no_match [OF none] l(2)]] none(1) l(1)
    show ?thesis by simp
  next
    case (many ms w1)
    from Cons.prems [unfolded route_many_matches [OF many]] show ?thesis by simp
  next
    case (one ms w1)
    from one(2) g have l: "lookupAt api pd p zone st r = (ms, None)" "w1 = (st, log @ [q])"
      by simp_all
    have ne: "ms \<noteq> []" using one(3) by auto
    from Cons.IH [OF Cons.prems [unfolded route_one_match [OF one] l(2)]] one(1,3) l(1) ne
    show ?thesis by (simp add: resolved_def)
  qed
qed

lemma SetRecords_v2_route_general:
  "SetRecords_v2_route api pd p zone recs u c w = (Inr (u', c'), w2) \<Longrightarrow>
     (\<forall>r \<in> set recs. ID r \<noteq> '''' \<longrightarrow> r \<in> set u') \<and> set u \<subseteq> set u'
     \<and> (\<forall>r \<in> set c'. r \<in> set c \<or> r \<in> set recs \<and> ID r = '''')
     \<and> length u' + length c' = length u + length c + length recs"
proof (induction recs arbitrary: u c w)
  case Nil
  then show ?case by auto
next
  case (Cons r recs)
  show ?case
  proof (cases rule: route_cases [where r = r and api = api and pd = pd and p = p
        and zone = zone and w = w])
    case with_id
    from Cons.IH [OF Cons.prems [unfolded route_with_id [OF with_id]]] with_id
    show ?thesis by auto
  next
    case (fails ms err w1)
    from Cons.prems [unfolded route_lookup_fails [OF fails]] show ?thesis by simp
  next
    case (none w1)
    from Cons.IH [OF Cons.prems [unfolded route_no_match [OF none]]] none(1)
    show ?thesis by auto
  next
    case (many ms w1)
    from Cons.prems [unfolded route_many_matches [OF many]] show ?thesis by simp
  next
    case (one ms w1)
    from Cons.IH [OF Cons.prems [unfolded route_one_match [OF one]]] one(1)
    show ?thesis by auto
  qed
qed

text \<open>
  Claim C1, as the code has it.  In the first iteration \<^verbatim>\<open>SetRecords\<close> lists the zone
  once, at the start, and passes to the update path exactly the input records whose
  coordinate string, the name as given joined to the type, is that of some listed
  record, and to the create path exactly the others.  In the second iteration there is
  no listing: a record that carries an identifier goes to the update path; a record
  without one goes by its own lookup, to the create path when the lookup matches nothing
  and to the update path, with the identifier found, when it matches one record; when
  the sorting succeeds no lookup matched more than one.  On a remote side whose lookups
  change nothing, all those lookups see the zone as it was at the start of the call; on
  any remote side, every input record with an identifier is among the updates, every
  create is an input record without one, and no input record is dropped.
\<close>

theorem SetRecords_routing:
  "(GetRecords_v1 api pd p zone w = ((existing, None), w1) \<longrightarrow>
      SetRecords_v1 api pd p zone recs w =
        SetRecords_v1_write api p zone recs
          (filter (listed existing) recs) (filter (\<lambda>r. \<not> listed existing r) recs) w1)
   \<and> (readOnlyLookups api
        \<and> SetRecords_v2_route api pd p zone recs [] [] (st, log) = (Inr (updates, creates), w2) \<longrightarrow>
      fst w2 = st
      \<and> SetRecords_v2 api pd p zone recs (st, log) =
          SetRecords_v2_write api pd p zone updates creates w2
      \<and> creates = filter (\<lambda>r. ID r = '''' \<and> fst (lookupAt api pd p zone st r) = []) recs
      \<and> updates = map (resolved api pd p zone st)
          (filter (\<lambda>r. ID r \<noteq> '''' \<or> fst (lookupAt api pd p zone st r) \<noteq> []) recs)
      \<and> (\<forall>r \<in> set recs. ID r = '''' \<longrightarrow> length (fst (lookupAt api pd p zone st r)) \<le> 1))
   \<and> (SetRecords_v2_route api pd p zone recs [] [] w = (Inr (updates, creates), w2) \<longrightarrow>
      (\<forall>r \<in> set recs. ID r \<noteq> '''' \<longrightarrow> r \<in> set updates)
      \<and> (\<forall>r \<in> set creates. r \<in> set recs \<and> ID r = '''')
      \<and> length updates + length creates = length recs)"
proof (intro conjI impI)
  assume "GetRecords_v1 api pd p zone w = ((existing, None), w1)"
  then show "SetRecords_v1 api pd p zone recs w =
        SetRecords_v1_write api p zone recs
          (filter (listed existing) recs) (filter (\<lambda>r. \<not> listed existing r) recs) w1"
    by (simp add: SetRecords_v1_def SetRecords_v1_route_filter Contains_listed)
next
  assume a: "readOnlyLookups api
        \<and> SetRecords_v2_route api pd p zone recs [] [] (st, log) = (Inr (updates, creates), w2)"
  then have r: "SetRecords_v2_route api pd p zone recs [] [] (st, log) = (Inr (updates, creates), w2)"
    and ro: "readOnlyLookups api"
    by simp_all
  note c = SetRecords_v2_route_readOnly [OF ro r]
  show "fst w2 = st" using c by simp
  show "SetRecords_v2 api pd p zone recs (st, log) =
          SetRecords_v2_write api pd p zone updates creates w2"
    using r by (simp add: SetRecords_v2_def)
  show "creates = filter (\<lambda>r. ID r = '''' \<and> fst (lookupAt api pd p zone st r) = []) recs"
    using c by simp
  show "updates = map (resolved api pd p zone st)
          (filter (\<lambda>r. ID r \<noteq> '''' \<or> fst (lookupAt api pd p zone st r) \<noteq> []) recs)"
    using c by simp
  show "\<forall>r \<in> set recs. ID r = '''' \<longrightarrow> length (fst (lookupAt api pd p zone st r)) \<le> 1"
    using c by simp
next
  assume r: "SetRecords_v2_route api pd p zone recs [] [] w = (Inr (updates, creates), w2)"
  note g = SetRecords_v2_route_general [OF r]
  show "\<forall>r \<in> set recs. ID r \<noteq> '''' \<longrightarrow> r \<in> set updates"
    using g by simp
  show "\<forall>r \<in> set creates. r \<in> set recs \<and> ID r = ''''"
    using g by simp
  show "length updates + length creates = length recs"
    using g by simp
qed

theorem SetRecords_routing_witness:
  "SetRecords_v1 (always (success [wwwWire])) parseSeconds prov ''example.com.''
       [www, wwwListed] ((), [])
     = SetRecords_v1_write (always (success [wwwWire])) prov ''example.com.''
         [www, wwwListed] [wwwListed] [www]
         ((), [(''dns/retrieve/example.com'', CredentialsBody (getCredentials prov))])
   \<and> SetRecords_v2 (always (success [txtWire ''7''])) parseSeconds prov ''example.com.''
       [txt60, www\<lparr>ID := ''9''\<rparr>] ((), [])
     = SetRecords_v2_write (always (success [txtWire ''7''])) parseSeconds prov ''example.com.''
         [txt60\<lparr>ID := ''7''\<rparr>, www\<lparr>ID := ''9''\<rparr>] []
         ((), [(''/dns/retrieveByNameType/example.com/TXT/libdns_test'',
                CredentialsBody (getCredentials prov))])"
proof -
  let ?z = "''example.com.''"
  let ?a1 = "always (success [wwwWire])"
  let ?a2 = "always (success [txtWire ''7''])"
  let ?w1 = "((), [(''dns/retrieve/example.com'', CredentialsBody (getCredentials prov))])"
  let ?w2 = "((), [(''/dns/retrieveByNameType/example.com/TXT/libdns_test'',
                    CredentialsBody (getCredentials prov))])"
  have h1: "GetRecords_v1 ?a1 parseSeconds prov ?z ((), []) = (([wwwListed], None), ?w1)"
    by (simp add: GetRecords_v1_def MakeApiRequest_def always_def success_def wwwWire_def
        wire0_def wwwListed_def parseSeconds_def isDigit_def decval_def Atoi_def Second_def
        trimZone_def TrimSuffix_def HasSuffix_def)
  have l: "\<not> listed [wwwListed] www" "listed [wwwListed] wwwListed"
    by (simp_all add: listed_def getRecordCoordinates_def www_def wwwListed_def rec0_def)
  have h2: "readOnlyLookups ?a2"
    by (simp add: readOnlyLookups_def always_def)
  have h3: "SetRecords_v2_route ?a2 parseSeconds prov ?z [txt60, www\<lparr>ID := ''9''\<rparr>] [] [] ((), [])
      = (Inr ([txt60\<lparr>ID := ''7''\<rparr>, www\<lparr>ID := ''9''\<rparr>], []), ?w2)"
    by (simp add: getMatchingRecord_def Let_def MakeApiRequest_def always_def success_def
        txt60_def www_def rec0_def RelativeName_def TrimSuffix_def HasSuffix_def
        LibdnsZoneToPorkbunDomain_def toLibdnsRecord_def txtWire_def wire0_def)
  have c1: "SetRecords_v1 ?a1 parseSeconds prov ?z [www, wwwListed] ((), [])
      = SetRecords_v1_write ?a1 prov ?z [www, wwwListed] [wwwListed] [www] ?w1"
    using SetRecords_routing
      [where api = ?a1 and pd = parseSeconds and p = prov and zone = ?z and w = "((), [])"
        and existing = "[wwwListed]" and ?w1.0 = ?w1 and recs = "[www, wwwListed]",
        THEN conjunct1]
      h1 l
    by simp
  have c2: "SetRecords_v2 ?a2 parseSeconds prov ?z [txt60, www\<lparr>ID := ''9''\<rparr>] ((), [])
      = SetRecords_v2_write ?a2 parseSeconds prov ?z
          [txt60\<lparr>ID := ''7''\<rparr>, www\<lparr>ID := ''9''\<rparr>] [] ?w2"
    using SetRecords_routing
      [where api = ?a2 and pd = parseSeconds and p = prov and zone = ?z
        and recs = "[txt60, www\<lparr>ID := ''9''\<rparr>]" and st = "()" and log = "[]"
        and updates = "[txt60\<lparr>ID := ''7''\<rparr>, www\<lparr>ID := ''9''\<rparr>]" and creates = "[]"
        and ?w2.0 = ?w2,
        THEN conjunct2, THEN conjunct1]
      h2 h3
    by simp
  have c3: "length [txt60\<lparr>ID := ''7''\<rparr>, www\<lparr>ID := ''9''\<rparr>] + length ([] :: Record list)
      = length [txt60, www\<lparr>ID := ''9''\<rparr>]"
    using SetRecords_routing
      [where api = ?a2 and pd = parseSeconds and p = prov and zone = ?z
        and recs = "[txt60, www\<lparr>ID := ''9''\<rparr>]" and w = "((), [])"
        and updates = "[txt60\<lparr>ID := ''7''\<rparr>, www\<lparr>ID := ''9''\<rparr>]" and creates = "[]"
        and ?w2.0 = ?w2,
        THEN conjunct2, THEN conjunct2]
      h3
    by blast
  show ?thesis
    using c1 c2 c3 by simp
qed

text \<open>
  Claim C1 as stated fails in both iterations.  In the second, a record that carries an
  identifier goes to the update path although the zone lists no record at all.  In the
  first, the listed name is the absolute name with a dot at the end, so an input record
  with the same zone-relative name and the same type as a listed one goes to the create
  path.
\<close>

theorem SetRecords_routing_counterexample:
  "fst (GetRecords_v2 (always (success [])) parseSeconds prov ''example.com.'' ((), []))
     = ([], None)
   \<and> fst (SetRecords_v2_route (always (success [])) parseSeconds prov ''example.com.''
            [www\<lparr>ID := ''123''\<rparr>] [] [] ((), []))
     = Inr ([www\<lparr>ID := ''123''\<rparr>], [])
   \<and> fst (GetRecords_v1 (always (success [wwwWire])) parseSeconds prov ''example.com.'' ((), []))
     = ([wwwListed], None)
   \<and> RelativeName (Name wwwListed) ''example.com.'' = RelativeName (Name www) ''example.com.''
   \<and> Type wwwListed = Type www
   \<and> SetRecords_v1_route (existingCoordinates_v1 [wwwListed] NewSet) [www] [] [] = ([], [www])"
proof (intro conjI)
  show "fst (GetRecords_v2 (always (success [])) parseSeconds prov ''example.com.'' ((), []))
     = ([], None)"
    by (simp add: GetRecords_v2_def MakeApiRequest_def always_def success_def)
  show "fst (SetRecords_v2_route (always (success [])) parseSeconds prov ''example.com.''
            [www\<lparr>ID := ''123''\<rparr>] [] [] ((), []))
     = Inr ([www\<lparr>ID := ''123''\<rparr>], [])"
    by simp
  show "fst (GetRecords_v1 (always (success [wwwWire])) parseSeconds prov ''example.com.'' ((), []))
     = ([wwwListed], None)"
    by (simp add: GetRecords_v1_def MakeApiRequest_def always_def success_def wwwWire_def
        wire0_def wwwListed_def parseSeconds_def isDigit_def decval_def Atoi_def Second_def)
  show "RelativeName (Name wwwListed) ''example.com.'' = RelativeName (Name www) ''example.com.''"
    by (simp add: RelativeName_def TrimSuffix_def HasSuffix_def wwwListed_def www_def rec0_def)
  show "Type wwwListed = Type www"
    by (simp add: wwwListed_def www_def rec0_def)
  show "SetRecords_v1_route (existingCoordinates_v1 [wwwListed] NewSet) [www] [] [] = ([], [www])"
    by (simp add: Contains_def Add_def NewSet_def getRecordCoordinates_def wwwListed_def
        www_def rec0_def)
qed

section \<open>The name of the zone apex\<close>



















section \<open>Where the code departs from the claims\<close>

text \<open>
  Claim C2 does not hold of the code.  With a response whose status is \<open>ERROR\<close>,
  \<^verbatim>\<open>CheckCredentials\<close> and \<^verbatim>\<open>updateRecords\<close> return a nil error, \<^verbatim>\<open>DeleteRecords\<close>
  reports the record as deleted, and the lookup reports that nothing matched.
\<close>

theorem status_failure_not_surfaced:
  "fst (CheckCredentials replay prov ([Inr (failure ''Invalid API key.'')], [])) = ('''', None)
   \<and> fst (updateRecords replay prov ''example.com.'' [www\<lparr>ID := ''42''\<rparr>]
            ([Inr (failure ''Invalid record ID.'')], [])) = ([], None)
   \<and> fst (DeleteRecords_v2 replay parseSeconds prov ''example.com.'' [www\<lparr>ID := ''42''\<rparr>]
            ([Inr (failure ''Invalid record ID.'')], [])) = ([www\<lparr>ID := ''42''\<rparr>], None)
   \<and> fst (getMatchingRecord replay parseSeconds prov www ''example.com.''
            ([Inr (failure ''Invalid domain.'')], [])) = ([], None)"
  by (simp add: CheckCredentials_def updateRecords_def DeleteRecords_v2_def getMatchingRecord_def
      Let_def MakeApiRequest_def replay_def failure_def)

text \<open>
  Claim C3 does not hold of the code.  The SRV record of the claim translates without
  error to a record whose service, transport and target are empty, whose weight and
  port are 0, and whose name still carries the two underscore labels; only the
  priority is the one the claim gives.
\<close>

theorem srv_translation_is_a_stub:
  "toLibdnsRecord_typed parseSeconds pa srvWire ''example.com''
     = Returns (SRV '''' '''' ''_imaps._tcp'' (300 * Second) 10 0 0 '''', None)"
  by (simp add: toLibdnsRecord_typed_def srvWire_def wire0_def parseSeconds_def RelativeName_def
      TrimSuffix_def HasSuffix_def Atoi_def isDigit_def decval_def Second_def)

text \<open>
  Claim C6 does not hold of the code.  CAA content with numeric flags and fewer than
  three fields does not give an error: the second or third piece is read from a slice
  that has one or two, and the call panics.
\<close>

theorem caa_short_content_panics:
  "toLibdnsRecord_typed parseSeconds pa (caaWire ''0 issue'') ''example.com''
     = Panics ''index out of range''
   \<and> toLibdnsRecord_typed parseSeconds pa (caaWire ''0'') ''example.com''
     = Panics ''index out of range''"
  by (simp add: toLibdnsRecord_typed_def caaWire_def wire0_def parseSeconds_def RelativeName_def
      TrimSuffix_def HasSuffix_def Atoi_def isDigit_def decval_def index_def numeral_3_eq_3)

text \<open>
  The rest of what claim C6 says holds: three fields or more translate, with the spaces
  of the value kept, and flags that are not a number give an error.
\<close>

lemma caa_value_keeps_spaces:
  "toLibdnsRecord_typed parseSeconds pa (caaWire ''0 issuewild a b  c'') ''example.com''
     = Returns (CAA ''@'' (600 * Second) 0 ''issuewild'' ''a b  c'', None)"
  by (simp add: toLibdnsRecord_typed_def caaWire_def wire0_def parseSeconds_def RelativeName_def
      TrimSuffix_def HasSuffix_def Atoi_def isDigit_def decval_def index_def numeral_3_eq_3
      Second_def)

lemma SplitN_nonempty: "0 < n \<Longrightarrow> SplitN s sep n \<noteq> []"
  by (induction s sep n rule: SplitN.induct) auto

lemma caa_bad_flags_error:
  assumes "snd (pd (pkbn_ttl record @ ''s'')) = None"
    and "pkbn_type record = ''CAA''"
    and "snd (Atoi (hd (SplitN (pkbn_content record) CHR '' '' 3))) = Some err"
  shows "toLibdnsRecord_typed pd pa record zone = Returns (CAA '''' 0 0 '''' '''', Some err)"
proof -
  obtain ttl where t: "pd (pkbn_ttl record @ ''s'') = (ttl, None)"
    using assms(1) by (cases "pd (pkbn_ttl record @ ''s'')") auto
  have ne: "SplitN (pkbn_content record) CHR '' '' 3 \<noteq> []"
    by (rule SplitN_nonempty) simp
  then have i: "index (SplitN (pkbn_content record) CHR '' '' 3) 0
      = Returns (hd (SplitN (pkbn_content record) CHR '' '' 3))"
    by (simp add: index_def hd_conv_nth)
  obtain flags where f: "Atoi (hd (SplitN (pkbn_content record) CHR '' '' 3)) = (flags, Some err)"
    using assms(3) by (cases "Atoi (hd (SplitN (pkbn_content record) CHR '' '' 3))") auto
  show ?thesis
    using t i f assms(2) by (simp add: toLibdnsRecord_typed_def Let_def)
qed

end
